theory Spec2Isabelle
  imports Complex_Main "HOL-Library.Multiset"
begin

section \<open>Python values and library functions\<close>

text \<open>
  A parsed JSON document, as \<^verbatim>\<open>json.loads\<close> returns it. Python's \<^verbatim>\<open>None\<close> is \<open>JNull\<close>:
  a function of the source that returns \<^verbatim>\<open>None\<close> for "no document" returns the same
  value as one that parsed the text \<^verbatim>\<open>null\<close>. A float is kept as the rational it denotes
  (no arithmetic is done on it; only its truth value is read).
\<close>

datatype json =
    JNull
  | JBool bool
  | JInt int
  | JFloat rat
  | JStr string
  | JArr "json list"
  | JObj "(string \<times> json) list"

text \<open>Python's truth value of a parsed document (\<^verbatim>\<open>if workflow_data:\<close>).\<close>

fun truthy :: "json \<Rightarrow> bool" where
  "truthy JNull = False"
| "truthy (JBool b) = b"
| "truthy (JInt i) = (i \<noteq> 0)"
| "truthy (JFloat r) = (r \<noteq> 0)"
| "truthy (JStr s) = (s \<noteq> [])"
| "truthy (JArr xs) = (xs \<noteq> [])"
| "truthy (JObj kvs) = (kvs \<noteq> [])"

text \<open>The exceptions that leave a function of the source.\<close>

datatype exn =
    HTTPError nat
  | ConnectionError
  | ValueError string
  | NameError string
  | OSError string
  | SystemExit nat

text \<open>One entry of a directory listing of the hosting API.\<close>

record item =
  name :: string
  type :: string
  download_url :: string

text \<open>
  A fetched web page as the HTML parser presents it: the \<^verbatim>\<open>href\<close> of every \<^verbatim>\<open>a\<close> tag and
  the \<^verbatim>\<open>src\<close> of every \<^verbatim>\<open>img\<close> tag, in document order (\<open>None\<close> when the attribute is
  absent).
\<close>

record page =
  a_hrefs :: "string option list"
  img_srcs :: "string option list"

text \<open>
  The outside world and the library functions the source calls, as parameters.
  A request either raises (a transport failure) or answers with a status code and a body;
  the body is read as a directory listing (\<^verbatim>\<open>response.json()\<close>), as raw content
  (\<^verbatim>\<open>response.text\<close>, \<^verbatim>\<open>response.content\<close>, \<^verbatim>\<open>iter_content\<close>) or as a parsed page.
  \<open>json_loads\<close> and \<open>b64decode_utf8\<close> are \<open>None\<close> where the library call raises;
  \<open>image_open\<close> gives the \<^verbatim>\<open>info\<close> dictionary of an image, \<open>None\<close> where
  \<^verbatim>\<open>Image.open\<close> raises.
\<close>

record env =
  get_listing :: "string \<Rightarrow> exn + nat \<times> item list"
  get_content :: "string \<Rightarrow> exn + nat \<times> string"
  get_page :: "string \<Rightarrow> exn + nat \<times> page"
  json_loads :: "string \<Rightarrow> json option"
  b64decode_utf8 :: "string \<Rightarrow> string option"
  image_open :: "string \<Rightarrow> (string \<rightharpoonup> string) option"
  urlparse_path :: "string \<Rightarrow> string"
  urljoin :: "string \<Rightarrow> string \<Rightarrow> string"

text \<open>\<^verbatim>\<open>response.raise_for_status()\<close>: client and server error statuses raise.\<close>

definition raise_for_status :: "nat \<Rightarrow> exn option" where
  "raise_for_status status = (if 400 \<le> status \<and> status < 600 then Some (HTTPError status) else None)"

subsection \<open>Strings and paths\<close>

definition endswith :: "string \<Rightarrow> string \<Rightarrow> bool" where
  "endswith s suf = (length suf \<le> length s \<and> drop (length s - length suf) s = suf)"

definition startswith :: "string \<Rightarrow> string \<Rightarrow> bool" where
  "startswith s pre = (take (length pre) s = pre)"

text \<open>\<^verbatim>\<open>str.lower\<close> on the ASCII letters.\<close>

definition lower_char :: "char \<Rightarrow> char" where
  "lower_char c =
     (case map_of (zip ''ABCDEFGHIJKLMNOPQRSTUVWXYZ'' ''abcdefghijklmnopqrstuvwxyz'') c of
        Some d \<Rightarrow> d
      | None \<Rightarrow> c)"

definition lower :: "string \<Rightarrow> string" where
  "lower s = map lower_char s"

text \<open>The text after the last occurrence of a character (all of it when there is none).\<close>

definition after_last :: "char \<Rightarrow> string \<Rightarrow> string" where
  "after_last c s = rev (takeWhile (\<lambda>x. x \<noteq> c) (rev s))"

text \<open>\<^verbatim>\<open>os.path.basename\<close> (POSIX): what follows the last slash.\<close>

definition basename :: "string \<Rightarrow> string" where
  "basename p = after_last (CHR ''/'') p"

text \<open>
  The split of a string at its last dot: the text before it and the text after it;
  \<open>None\<close> when it has no dot (\<^verbatim>\<open>rfind('.') == -1\<close>).
\<close>

definition last_dot_split :: "string \<Rightarrow> (string \<times> string) option" where
  "last_dot_split n =
     (if CHR ''.'' \<in> set n
      then (let e = after_last (CHR ''.'') n in Some (take (length n - length e - 1) n, e))
      else None)"

text \<open>
  \<^verbatim>\<open>os.path.splitext\<close> (POSIX): the extension starts at the last dot of the last path
  component, provided a character other than a dot precedes it in that component.
\<close>

definition splitext :: "string \<Rightarrow> string \<times> string" where
  "splitext p =
     (let tail = basename p; head = take (length p - length tail) p
      in case last_dot_split tail of
           None \<Rightarrow> (p, [])
         | Some (b, e) \<Rightarrow>
             if \<exists>c \<in> set b. c \<noteq> CHR ''.'' then (head @ b, CHR ''.'' # e) else (p, []))"

text \<open>\<^verbatim>\<open>os.path.join\<close> of two parts (POSIX).\<close>

definition os_path_join :: "string \<Rightarrow> string \<Rightarrow> string" where
  "os_path_join a b =
     (if startswith b ''/'' then b
      else if a = [] \<or> endswith a ''/'' then a @ b
      else a @ ''/'' @ b)"

text \<open>Splitting at a separator, as \<^verbatim>\<open>str.split(sep)\<close> does.\<close>

fun split_on :: "char \<Rightarrow> string \<Rightarrow> string list" where
  "split_on c [] = [[]]"
| "split_on c (x # xs) =
     (if x = c then [] # split_on c xs
      else (case split_on c xs of
              [] \<Rightarrow> [[x]]
            | w # ws \<Rightarrow> (x # w) # ws))"

text \<open>
  \<^verbatim>\<open>pathlib.PurePosixPath(s).name\<close>: the last component, empty and \<^verbatim>\<open>.\<close> components
  dropped. \<open>path_suffix\<close> and \<open>path_stem\<close> are \<^verbatim>\<open>.suffix\<close> and \<^verbatim>\<open>.stem\<close> as pathlib
  computes them up to Python 3.13: the name is split at its last dot when the dot is
  neither its first nor its last character.
\<close>

definition path_name :: "string \<Rightarrow> string" where
  "path_name s =
     (case filter (\<lambda>x. x \<noteq> [] \<and> x \<noteq> ''.'') (split_on (CHR ''/'') s) of
        [] \<Rightarrow> []
      | x # xs \<Rightarrow> last (x # xs))"

definition path_suffix :: "string \<Rightarrow> string" where
  "path_suffix s =
     (case last_dot_split (path_name s) of
        None \<Rightarrow> []
      | Some (b, e) \<Rightarrow> if b \<noteq> [] \<and> e \<noteq> [] then CHR ''.'' # e else [])"

definition path_stem :: "string \<Rightarrow> string" where
  "path_stem s =
     (case last_dot_split (path_name s) of
        None \<Rightarrow> path_name s
      | Some (b, e) \<Rightarrow> if b \<noteq> [] \<and> e \<noteq> [] then b else path_name s)"

text \<open>
  \<^verbatim>\<open>str(pathlib.PurePosixPath(s))\<close>: the root (one slash, or two when the text starts with
  exactly two), then the components that are neither empty nor \<^verbatim>\<open>.\<close>, joined by slashes;
  \<^verbatim>\<open>.\<close> when nothing is left.
\<close>

definition path_root :: "string \<Rightarrow> string" where
  "path_root s =
     (if \<not> startswith s ''/'' then []
      else if \<not> startswith (drop 1 s) ''/'' \<or> startswith (drop 2 s) ''/'' then ''/''
      else ''//'')"

fun join_sep :: "string \<Rightarrow> string list \<Rightarrow> string" where
  "join_sep sep [] = []"
| "join_sep sep [x] = x"
| "join_sep sep (x # y # ys) = x @ sep @ join_sep sep (y # ys)"

definition pure_path :: "string \<Rightarrow> string" where
  "pure_path s =
     (let parts = filter (\<lambda>x. x \<noteq> [] \<and> x \<noteq> ''.'') (split_on (CHR ''/'') s);
          r = path_root s @ join_sep ''/'' parts
      in if r = [] then ''.'' else r)"

text \<open>
  \<^verbatim>\<open>Path(d) / n\<close>, as text: the two parts are joined as \<^verbatim>\<open>os.path.join\<close> joins them (an
  absolute name replaces the directory) and the result is a path in pathlib's normal
  form.
\<close>

definition path_div :: "string \<Rightarrow> string \<Rightarrow> string" where
  "path_div d n = pure_path (os_path_join d n)"

subsection \<open>The state a run acts on\<close>

text \<open>
  What a file holds: a document written by \<^verbatim>\<open>json.dump(v, f, indent=2)\<close>, or raw bytes.
  The state records the local directories, the local files with their content, every
  write in the order it happened (\<open>writes\<close>: the paths opened for writing), and the
  URLs of the directory listings requested from the hosting API, in order (\<open>requests\<close>).
  Writing to a path replaces what was there, as \<^verbatim>\<open>open(path, 'w')\<close> does. Paths are
  compared as they are written. Creating a directory fails as the operating system makes
  it fail on the paths the state records; opening and writing a file are taken to
  succeed.
\<close>

datatype content = JsonDump json | Bytes string

record state =
  dirs :: "string set"
  files :: "string \<rightharpoonup> content"
  writes :: "string list"
  requests :: "string list"

definition write_file :: "string \<Rightarrow> content \<Rightarrow> state \<Rightarrow> state" where
  "write_file p c st = st\<lparr>files := (files st)(p \<mapsto> c), writes := writes st @ [p]\<rparr>"

text \<open>
  \<^verbatim>\<open>os.makedirs(d, exist_ok=True)\<close>. It raises for the empty path
  (\<^verbatim>\<open>FileNotFoundError\<close>), for a path that is a regular file (\<^verbatim>\<open>FileExistsError\<close>) and for
  a path below a regular file (\<^verbatim>\<open>NotADirectoryError\<close>); otherwise the directory and its
  ancestors exist afterwards.
\<close>

definition ancestors :: "string \<Rightarrow> string list" where
  "ancestors d = [take i d. i \<leftarrow> [1..<length d], d ! i = CHR ''/'']"

definition makedirs :: "string \<Rightarrow> state \<Rightarrow> exn + state" where
  "makedirs d st =
     (if d = [] then Inl (OSError ''FileNotFoundError'')
      else if d \<in> dom (files st) then Inl (OSError ''FileExistsError'')
      else if \<exists>a \<in> set (ancestors d). a \<in> dom (files st)
        then Inl (OSError ''NotADirectoryError'')
      else Inr (st\<lparr>dirs := dirs st \<union> set (ancestors d) \<union> {d}\<rparr>))"

section \<open>Metadata extraction\<close>

text \<open>
  The payload of an image: the \<^verbatim>\<open>parameters\<close> field of its \<^verbatim>\<open>info\<close> dictionary, else
  the \<^verbatim>\<open>workflow\<close> field.
\<close>

definition workflow_field :: "(string \<rightharpoonup> string) \<Rightarrow> string option" where
  "workflow_field info =
     (case info ''parameters'' of
        Some p \<Rightarrow> Some p
      | None \<Rightarrow> info ''workflow'')"

text \<open>
  \<^verbatim>\<open>extract_workflow_from_image\<close> of \<^verbatim>\<open>github_workflow_crawler.py\<close> and of \<^verbatim>\<open>comfyui_crawler.py\<close>
  (the same body; the first is given the bytes, the second the path of the image).
  A non-empty payload is parsed as JSON; every failure is logged and gives \<^verbatim>\<open>None\<close>.
\<close>

definition extract_workflow_from_image :: "env \<Rightarrow> string \<Rightarrow> json" where
  "extract_workflow_from_image e image_data =
     (case image_open e image_data of
        None \<Rightarrow> JNull
      | Some info \<Rightarrow>
          (case workflow_field info of
             None \<Rightarrow> JNull
           | Some workflow_data \<Rightarrow>
               if workflow_data \<noteq> []
               then (case json_loads e workflow_data of
                       Some workflow_json \<Rightarrow> workflow_json
                     | None \<Rightarrow> JNull)
               else JNull))"

text \<open>
  \<^verbatim>\<open>extract_workflow_from_image\<close> of \<^verbatim>\<open>parse_workflow_templates.py\<close>: the same body, in a
  module that defines no \<^verbatim>\<open>logger\<close>. Each logging call raises \<^verbatim>\<open>NameError\<close>; raised in
  the body it is caught by the outer handler, whose own logging call raises it again.
\<close>

definition pwt_extract_workflow_from_image :: "env \<Rightarrow> string \<Rightarrow> exn + json" where
  "pwt_extract_workflow_from_image e image_data =
     (case image_open e image_data of
        None \<Rightarrow> Inl (NameError ''logger'')
      | Some info \<Rightarrow>
          (case workflow_field info of
             None \<Rightarrow> Inl (NameError ''logger'')
           | Some workflow_data \<Rightarrow>
               if workflow_data \<noteq> []
               then (case json_loads e workflow_data of
                       Some workflow_json \<Rightarrow> Inr workflow_json
                     | None \<Rightarrow> Inl (NameError ''logger''))
               else Inl (NameError ''logger'')))"

text \<open>
  \<^verbatim>\<open>try_decode_data\<close> of \<^verbatim>\<open>parse_workflow_templates.py\<close>; nothing in the repository calls
  it. Its argument is a dictionary or a string.
\<close>

datatype pydata = Dict "(string \<times> json) list" | Str string

fun try_decode_data :: "env \<Rightarrow> pydata \<Rightarrow> json" where
  "try_decode_data e (Dict d) = JObj d"
| "try_decode_data e (Str data) =
     (case json_loads e data of
        Some v \<Rightarrow> v
      | None \<Rightarrow>
          (case b64decode_utf8 e data of
             None \<Rightarrow> JNull
           | Some decoded \<Rightarrow>
               (case json_loads e decoded of
                  Some v \<Rightarrow> v
                | None \<Rightarrow> JNull)))"

section \<open>Persisting a document\<close>

text \<open>
  \<^verbatim>\<open>save_workflow_as_json\<close> of \<^verbatim>\<open>comfyui_crawler.py\<close>. An exception raised while the
  directory is created is caught and printed, and \<^verbatim>\<open>None\<close> is returned.
\<close>

definition workflow_json_path :: "string \<Rightarrow> string \<Rightarrow> string" where
  "workflow_json_path image_path output_dir =
     (let image_filename = basename image_path;
          base_name = fst (splitext image_filename);
          json_filename = base_name @ ''_workflow.json''
      in os_path_join output_dir json_filename)"

definition save_workflow_as_json ::
  "json \<Rightarrow> string \<Rightarrow> string \<Rightarrow> state \<Rightarrow> string option \<times> state" where
  "save_workflow_as_json workflow_data image_path output_dir st =
     (if \<not> truthy workflow_data then (None, st)
      else (case makedirs output_dir st of
              Inl x \<Rightarrow> (None, st)
            | Inr st' \<Rightarrow>
                (let json_path = workflow_json_path image_path output_dir
                 in (Some json_path, write_file json_path (JsonDump workflow_data) st'))))"

text \<open>
  \<^verbatim>\<open>process_images_for_workflows\<close> of \<^verbatim>\<open>comfyui_crawler.py\<close>, over the file names that
  \<^verbatim>\<open>os.listdir(image_dir)\<close> gave: the paths of the documents saved.
\<close>

definition is_workflow_image :: "string \<Rightarrow> bool" where
  "is_workflow_image filename =
     (\<exists>ext \<in> set [''.png'', ''.jpg'', ''.jpeg'', ''.webp'']. endswith (lower filename) ext)"

fun save_workflows :: "env \<Rightarrow> string \<Rightarrow> string list \<Rightarrow> state \<Rightarrow> string list \<times> state" where
  "save_workflows e workflow_dir [] st = ([], st)"
| "save_workflows e workflow_dir (image_path # image_files) st =
     (let workflow_data = extract_workflow_from_image e image_path
      in if truthy workflow_data
         then (case save_workflow_as_json workflow_data image_path workflow_dir st of
                 (Some json_path, st') \<Rightarrow>
                   (let (saved, st'') = save_workflows e workflow_dir image_files st'
                    in (json_path # saved, st''))
               | (None, st') \<Rightarrow> save_workflows e workflow_dir image_files st')
         else save_workflows e workflow_dir image_files st)"

definition process_images_for_workflows ::
  "env \<Rightarrow> string \<Rightarrow> string \<Rightarrow> string list \<Rightarrow> state \<Rightarrow> string list \<times> state" where
  "process_images_for_workflows e image_dir workflow_dir listdir st =
     save_workflows e workflow_dir
       (map (os_path_join image_dir) (filter is_workflow_image listdir)) st"

text \<open>
  \<^verbatim>\<open>main\<close> of \<^verbatim>\<open>parse_workflow_templates.py\<close>, over the entries of the template directory,
  each with the bytes read from it. The first component of the result is the exception
  that ended the run, if one did.
\<close>

definition metadata_json_path :: "string \<Rightarrow> string \<Rightarrow> string" where
  "metadata_json_path template_dir filename =
     os_path_join template_dir (fst (splitext filename) @ ''_metadata.json'')"

fun pwt_loop :: "env \<Rightarrow> string \<Rightarrow> (string \<times> string) list \<Rightarrow> state \<Rightarrow> exn option \<times> state" where
  "pwt_loop e template_dir [] st = (None, st)"
| "pwt_loop e template_dir ((filename, image_data) # rest) st =
     (if endswith (lower filename) ''.png''
      then (case pwt_extract_workflow_from_image e image_data of
              Inl x \<Rightarrow> (Some x, st)
            | Inr workflow_data \<Rightarrow>
                if truthy workflow_data
                then pwt_loop e template_dir rest
                       (write_file (metadata_json_path template_dir filename)
                          (JsonDump workflow_data) st)
                else pwt_loop e template_dir rest st)
      else pwt_loop e template_dir rest st)"

definition pwt_main :: "env \<Rightarrow> (string \<times> string) list \<Rightarrow> state \<Rightarrow> exn option \<times> state" where
  "pwt_main e entries st = pwt_loop e ''tools/workflow_templates'' entries st"

section \<open>The hosted-tree crawler\<close>

definition GITHUB_API_URL :: string where
  "GITHUB_API_URL = ''https://api.github.com''"

definition FILE_TYPE_JSON :: string where
  "FILE_TYPE_JSON = ''json''"

definition FILE_TYPE_IMAGE :: string where
  "FILE_TYPE_IMAGE = ''image''"

definition SUPPORTED_IMAGE_EXTENSIONS :: "string list" where
  "SUPPORTED_IMAGE_EXTENSIONS = [''.png'', ''.jpg'', ''.jpeg'']"

subsection \<open>Parsing the repository URL\<close>

text \<open>
  The optional groups \<^verbatim>\<open>(?:https?://)?\<close> and \<^verbatim>\<open>(?:www\.)?\<close> of both patterns. A group
  that can match is taken: what follows it in the pattern starts with \<^verbatim>\<open>www.\<close> or
  \<^verbatim>\<open>github.com/\<close>, which a text starting with \<^verbatim>\<open>http\<close> (or \<^verbatim>\<open>www.\<close>) cannot match
  without it.
\<close>

definition skip_scheme :: "string \<Rightarrow> string" where
  "skip_scheme s =
     (if startswith s ''https://'' then drop 8 s
      else if startswith s ''http://'' then drop 7 s
      else s)"

definition skip_www :: "string \<Rightarrow> string" where
  "skip_www s = (if startswith s ''www.'' then drop 4 s else s)"

text \<open>
  \<^verbatim>\<open>github\.com/([^/]+)/([^/]+)\<close> after the optional groups, matched at the start of the
  URL: the owner, the repository, and the text that follows the repository. Each
  \<^verbatim>\<open>[^/]+\<close> takes the longest run without a slash, which must not be empty.
\<close>

definition match_owner_repo :: "string \<Rightarrow> (string \<times> string \<times> string) option" where
  "match_owner_repo url =
     (let s = skip_www (skip_scheme url)
      in if startswith s ''github.com/''
         then (let r = drop 11 s;
                   owner = takeWhile (\<lambda>c. c \<noteq> CHR ''/'') r;
                   r1 = drop (length owner) r
               in if owner \<noteq> [] \<and> startswith r1 ''/''
                  then (let r2 = drop 1 r1;
                            repo = takeWhile (\<lambda>c. c \<noteq> CHR ''/'') r2
                        in if repo \<noteq> [] then Some (owner, repo, drop (length repo) r2)
                           else None)
                  else None)
         else None)"

text \<open>
  The second pattern continues with \<^verbatim>\<open>/tree/([^/]+)/(.+)\<close>: the branch and the path. The
  dot of \<^verbatim>\<open>(.+)\<close> matches every character but a line feed.
\<close>

definition tree_match :: "string \<Rightarrow> (string \<times> string) option" where
  "tree_match url =
     (case match_owner_repo url of
        None \<Rightarrow> None
      | Some (owner, repo, rest) \<Rightarrow>
          if startswith rest ''/tree/''
          then (let r = drop 6 rest;
                    branch = takeWhile (\<lambda>c. c \<noteq> CHR ''/'') r;
                    r1 = drop (length branch) r
                in if branch \<noteq> [] \<and> startswith r1 ''/''
                   then (let path = takeWhile (\<lambda>c. c \<noteq> CHR 0x0A) (drop 1 r1)
                         in if path \<noteq> [] then Some (branch, path) else None)
                   else None)
          else None)"

text \<open>
  \<^verbatim>\<open>parse_github_url\<close>: the owner, the repository and the path. The branch of the second
  pattern is written to the log and is no part of the result.
\<close>

definition parse_github_url :: "string \<Rightarrow> exn + string \<times> string \<times> string" where
  "parse_github_url url =
     (case match_owner_repo url of
        None \<Rightarrow> Inl (ValueError (''Invalid GitHub URL: '' @ url))
      | Some (owner, repo, rest) \<Rightarrow>
          (case tree_match url of
             None \<Rightarrow> Inr (owner, repo, [])
           | Some (branch, path) \<Rightarrow> Inr (owner, hd (split_on (CHR ''/'') repo), path)))"

subsection \<open>Listing a directory\<close>

definition contents_url :: "string \<Rightarrow> string \<Rightarrow> string \<Rightarrow> string" where
  "contents_url owner repo path =
     GITHUB_API_URL @ ''/repos/'' @ owner @ ''/'' @ repo @ ''/contents''
       @ (if path \<noteq> [] then ''/'' @ path else [])"

text \<open>
  \<^verbatim>\<open>get_repo_contents\<close>: one request to the contents endpoint. A status other than 200
  is logged and \<^verbatim>\<open>raise_for_status\<close> is called; the listing is returned when nothing
  is raised.
\<close>

definition get_repo_contents ::
  "env \<Rightarrow> string \<Rightarrow> string \<Rightarrow> string \<Rightarrow> state \<Rightarrow> (exn + item list) \<times> state" where
  "get_repo_contents e owner repo path st =
     (let url = contents_url owner repo path;
          st' = st\<lparr>requests := requests st @ [url]\<rparr>
      in case get_listing e url of
           Inl x \<Rightarrow> (Inl x, st')
         | Inr (status_code, listing) \<Rightarrow>
             if status_code \<noteq> 200
             then (case raise_for_status status_code of
                     Some x \<Rightarrow> (Inl x, st')
                   | None \<Rightarrow> (Inr listing, st'))
             else (Inr listing, st'))"

subsection \<open>Downloading one file\<close>

text \<open>The dictionary \<^verbatim>\<open>download_file\<close> returns: the name to save under and the document.\<close>

record file_data =
  save_name :: string
  document :: json

text \<open>The test both \<^verbatim>\<open>download_file\<close> and \<^verbatim>\<open>process_directory\<close> apply to a file name.\<close>

definition matches_file_type :: "string \<Rightarrow> string \<Rightarrow> bool" where
  "matches_file_type file_type file_name =
     ((file_type = FILE_TYPE_JSON \<and> endswith file_name ''.json'') \<or>
      (file_type = FILE_TYPE_IMAGE \<and>
         lower (path_suffix file_name) \<in> set SUPPORTED_IMAGE_EXTENSIONS))"

text \<open>
  \<^verbatim>\<open>download_file\<close>: \<open>Inr None\<close> is the source's \<^verbatim>\<open>return None\<close>; \<open>Inl\<close> is an exception
  of the request itself, which is made outside the \<^verbatim>\<open>try\<close> block.
\<close>

definition download_file :: "env \<Rightarrow> item \<Rightarrow> string \<Rightarrow> exn + file_data option" where
  "download_file e file_info file_type =
     (let file_name = name file_info;
          file_ext = lower (path_suffix file_name)
      in if type file_info \<noteq> ''file'' then Inr None
         else if file_type = FILE_TYPE_JSON \<and> \<not> endswith file_name ''.json'' then Inr None
         else if file_type = FILE_TYPE_IMAGE \<and> file_ext \<notin> set SUPPORTED_IMAGE_EXTENSIONS
           then Inr None
         else (case get_content e (download_url file_info) of
                 Inl x \<Rightarrow> Inl x
               | Inr (status_code, body) \<Rightarrow>
                   if status_code \<noteq> 200 then Inr None
                   else if file_type = FILE_TYPE_JSON
                     then (case json_loads e body of
                             None \<Rightarrow> Inr None
                           | Some json_content \<Rightarrow>
                               Inr (Some \<lparr>save_name = file_name, document = json_content\<rparr>))
                   else (let workflow_json = extract_workflow_from_image e body
                         in if truthy workflow_json
                            then Inr (Some \<lparr>save_name = path_stem file_name @ ''.json'',
                                            document = workflow_json\<rparr>)
                            else Inr None)))"

subsection \<open>Processing a directory\<close>

text \<open>The body of \<^verbatim>\<open>if file_data:\<close> in \<^verbatim>\<open>process_directory\<close>: the document is written.\<close>

definition save_file_data :: "string \<Rightarrow> file_data \<Rightarrow> state \<Rightarrow> state" where
  "save_file_data output_dir fd st =
     write_file (path_div output_dir (save_name fd)) (JsonDump (document fd)) st"

definition subdir_path :: "string \<Rightarrow> string \<Rightarrow> string" where
  "subdir_path path nm = (if path \<noteq> [] then path @ ''/'' @ nm else nm)"

text \<open>
  \<^verbatim>\<open>process_directory\<close> and its loop over the listing. The recursion follows the remote
  tree, whose depth the program does not know: the first argument bounds the nesting of
  calls, and \<open>None\<close> says that the bound was reached. A result holds the value returned
  or the exception raised, and the state reached: what was written before an exception
  stays written.
\<close>

fun process_directory ::
    "nat \<Rightarrow> env \<Rightarrow> string \<Rightarrow> string \<Rightarrow> string \<Rightarrow> string \<Rightarrow> bool \<Rightarrow> string \<Rightarrow> state
      \<Rightarrow> ((exn + nat \<times> nat) \<times> state) option"
  and process_items ::
    "nat \<Rightarrow> env \<Rightarrow> string \<Rightarrow> string \<Rightarrow> string \<Rightarrow> string \<Rightarrow> bool \<Rightarrow> string \<Rightarrow> item list
      \<Rightarrow> nat \<Rightarrow> nat \<Rightarrow> state \<Rightarrow> ((exn + nat \<times> nat) \<times> state) option"
where
  "process_directory 0 e owner repo path output_dir recursive file_type st = None"
| "process_directory (Suc n) e owner repo path output_dir recursive file_type st =
     (case get_repo_contents e owner repo path st of
        (Inl x, st') \<Rightarrow> Some (Inl x, st')
      | (Inr contents, st') \<Rightarrow>
          process_items n e owner repo path output_dir recursive file_type contents 0 0 st')"
| "process_items n e owner repo path output_dir recursive file_type []
       total_files downloaded_files st =
     Some (Inr (total_files, downloaded_files), st)"
| "process_items n e owner repo path output_dir recursive file_type (item # items)
       total_files downloaded_files st =
     (if type item = ''file''
      then (if matches_file_type file_type (name item)
            then (case download_file e item file_type of
                    Inl x \<Rightarrow> Some (Inl x, st)
                  | Inr None \<Rightarrow>
                      process_items n e owner repo path output_dir recursive file_type items
                        (total_files + 1) downloaded_files st
                  | Inr (Some fd) \<Rightarrow>
                      process_items n e owner repo path output_dir recursive file_type items
                        (total_files + 1) (downloaded_files + 1)
                        (save_file_data output_dir fd st))
            else process_items n e owner repo path output_dir recursive file_type items
                   total_files downloaded_files st)
      else if recursive \<and> type item = ''dir''
      then (case process_directory n e owner repo (subdir_path path (name item)) output_dir
                   recursive file_type st of
              None \<Rightarrow> None
            | Some (Inl x, st') \<Rightarrow> Some (Inl x, st')
            | Some (Inr (sub_total, sub_downloaded), st') \<Rightarrow>
                process_items n e owner repo path output_dir recursive file_type items
                  (total_files + sub_total) (downloaded_files + sub_downloaded) st')
      else process_items n e owner repo path output_dir recursive file_type items
             total_files downloaded_files st)"

text \<open>
  \<^verbatim>\<open>main\<close>: the URL is parsed, the output directory (a \<^verbatim>\<open>Path\<close>) created and the directory
  processed; an exception of the processing is logged and raised again.
\<close>

definition crawler_main ::
  "nat \<Rightarrow> env \<Rightarrow> string \<Rightarrow> string \<Rightarrow> bool \<Rightarrow> string \<Rightarrow> state
    \<Rightarrow> ((exn + nat \<times> nat) \<times> state) option" where
  "crawler_main fuel e url output recursive file_type st =
     (case parse_github_url url of
        Inl x \<Rightarrow> Some (Inl x, st)
      | Inr (repo_owner, repo_name, repo_path) \<Rightarrow>
          (let output_dir = pure_path output
           in case makedirs output_dir st of
                Inl x \<Rightarrow> Some (Inl x, st)
              | Inr st' \<Rightarrow>
                  process_directory fuel e repo_owner repo_name repo_path output_dir recursive
                    file_type st'))"

section \<open>Concrete worlds\<close>

text \<open>
  A world in which every request fails, with the library functions tabulated on the
  few texts the examples below use, and the state before a run.
\<close>

definition quiet_env :: env where
  "quiet_env =
     \<lparr>get_listing = (\<lambda>u. Inl ConnectionError),
      get_content = (\<lambda>u. Inl ConnectionError),
      get_page = (\<lambda>u. Inl ConnectionError),
      json_loads = (\<lambda>s. if s = ''{}'' then Some (JObj [])
                         else if s = ''[1]'' then Some (JArr [JInt 1])
                         else if s = ''null'' then Some JNull
                         else None),
      b64decode_utf8 = (\<lambda>s. if s = ''WzFd'' then Some ''[1]'' else None),
      image_open = (\<lambda>d. None),
      urlparse_path = (\<lambda>u. u),
      urljoin = (\<lambda>b u. b @ u)\<rparr>"

definition empty_state :: state where
  "empty_state = \<lparr>dirs = {}, files = Map.empty, writes = [], requests = []\<rparr>"

definition falsy_env :: env where
  "falsy_env = quiet_env
     \<lparr>get_content := (\<lambda>u. if u = ''https://raw.example/blank.png'' then Inr (200, ''blank-png'')
                           else Inl ConnectionError),
      image_open := (\<lambda>d. if d = ''blank-png'' then Some [''workflow'' \<mapsto> ''{}''] else None)\<rparr>"


text \<open>
  An image whose \<^verbatim>\<open>workflow\<close> field holds \<^verbatim>\<open>WzFd\<close>, the base64 encoding of the JSON
  text \<^verbatim>\<open>[1]\<close>; the field itself is no JSON text.
\<close>

definition b64_env :: env where
  "b64_env = quiet_env
     \<lparr>image_open := (\<lambda>d. if d = ''b64-png'' then Some [''workflow'' \<mapsto> ''WzFd''] else None)\<rparr>"

text \<open>What may precede \<^verbatim>\<open>github.com/\<close> in a repository URL that the patterns accept.\<close>

definition url_prefixes :: "string list" where
  "url_prefixes = ['''', ''https://'', ''http://'', ''www.'', ''https://www.'', ''http://www.'']"

text \<open>
  A world that serves an image with the workflow \<^verbatim>\<open>[1]\<close> in its metadata, and a JSON file
  with the same document.
\<close>

definition wf_env :: env where
  "wf_env = quiet_env
     \<lparr>get_content := (\<lambda>u. if u = ''https://raw.example/pic.png'' then Inr (200, ''wf-png'')
                           else if u = ''https://raw.example/wf.json'' then Inr (200, ''[1]'')
                           else Inl ConnectionError),
      image_open := (\<lambda>d. if d = ''wf-png'' then Some [''workflow'' \<mapsto> ''[1]''] else None)\<rparr>"

section \<open>A remote tree\<close>

text \<open>
  A finite repository tree as the hosting API presents it: files with their download
  URL, directories with their entries, and entries of another type. \<open>serves\<close> says that
  the world answers the listing request of every directory of the tree with status 200
  and the directory's entries, in their order. \<open>files_of\<close> lists the names of the files of
  a subtree and \<open>count_matching\<close> counts those of the requested type; \<open>dirs_of\<close> lists the
  paths of the directories of a subtree, \<open>dir_count\<close> counts them, and \<open>depth\<close> is the
  nesting of directories.
\<close>

datatype rnode = RFile string string | RDir string "rnode list" | RLink string

fun item_of :: "rnode \<Rightarrow> item" where
  "item_of (RFile n u) = \<lparr>name = n, type = ''file'', download_url = u\<rparr>"
| "item_of (RDir n children) = \<lparr>name = n, type = ''dir'', download_url = []\<rparr>"
| "item_of (RLink n) = \<lparr>name = n, type = ''symlink'', download_url = []\<rparr>"

fun serves :: "env \<Rightarrow> string \<Rightarrow> string \<Rightarrow> string \<Rightarrow> rnode list \<Rightarrow> bool"
  and serves_node :: "env \<Rightarrow> string \<Rightarrow> string \<Rightarrow> string \<Rightarrow> rnode \<Rightarrow> bool" where
  "serves e owner repo path nodes =
     (get_listing e (contents_url owner repo path) = Inr (200, map item_of nodes)
      \<and> (\<forall>n \<in> set nodes. serves_node e owner repo path n))"
| "serves_node e owner repo path (RDir n children) =
     serves e owner repo (subdir_path path n) children"
| "serves_node e owner repo path (RFile n u) = True"
| "serves_node e owner repo path (RLink n) = True"

fun files_of :: "rnode \<Rightarrow> string list" where
  "files_of (RFile n u) = [n]"
| "files_of (RDir n children) = concat (map files_of children)"
| "files_of (RLink n) = []"

definition count_matching :: "string \<Rightarrow> rnode list \<Rightarrow> nat" where
  "count_matching file_type nodes =
     length (filter (matches_file_type file_type) (concat (map files_of nodes)))"

fun dirs_of :: "string \<Rightarrow> rnode \<Rightarrow> string list" where
  "dirs_of path (RDir n children) =
     subdir_path path n # concat (map (dirs_of (subdir_path path n)) children)"
| "dirs_of path (RFile n u) = []"
| "dirs_of path (RLink n) = []"

fun depth :: "rnode \<Rightarrow> nat" where
  "depth (RDir n children) = Suc (foldr max (map depth children) 0)"
| "depth (RFile n u) = 0"
| "depth (RLink n) = 0"


fun dir_count :: "rnode \<Rightarrow> nat" where
  "dir_count (RDir n children) = Suc (sum_list (map dir_count children))"
| "dir_count (RFile n u) = 0"
| "dir_count (RLink n) = 0"

text \<open>
  A world that serves a tree of two JSON files, one of them in a subdirectory, beside a
  file of another type and a link; every download answers with the document \<^verbatim>\<open>[1]\<close>.
\<close>

definition tree_env :: env where
  "tree_env = quiet_env
     \<lparr>get_listing := (\<lambda>u.
        if u = ''https://api.github.com/repos/o/r/contents/templates''
        then Inr (200, [\<lparr>name = ''a.json'', type = ''file'', download_url = ''https://raw.example/a.json''\<rparr>,
                        \<lparr>name = ''sub'', type = ''dir'', download_url = []\<rparr>,
                        \<lparr>name = ''link'', type = ''symlink'', download_url = []\<rparr>])
        else if u = ''https://api.github.com/repos/o/r/contents/templates/sub''
        then Inr (200, [\<lparr>name = ''b.json'', type = ''file'', download_url = ''https://raw.example/b.json''\<rparr>,
                        \<lparr>name = ''readme.md'', type = ''file'', download_url = ''https://raw.example/readme.md''\<rparr>])
        else Inr (404, [])),
      get_content := (\<lambda>u. Inr (200, ''[1]''))\<rparr>"

definition tree_nodes :: "rnode list" where
  "tree_nodes =
     [RFile ''a.json'' ''https://raw.example/a.json'',
      RDir ''sub'' [RFile ''b.json'' ''https://raw.example/b.json'',
                    RFile ''readme.md'' ''https://raw.example/readme.md''],
      RLink ''link'']"


section \<open>The model downloader\<close>

text \<open>The exceptions that \<^verbatim>\<open>requests.exceptions.RequestException\<close> covers.\<close>

fun is_request_exception :: "exn \<Rightarrow> bool" where
  "is_request_exception (HTTPError status) = True"
| "is_request_exception ConnectionError = True"
| "is_request_exception x = False"

text \<open>
  The name \<^verbatim>\<open>download_model_file\<close> gives the file when the caller gave none: the last
  component of the path of the URL, or a name made of the time of the call when that
  component has fewer than five characters. \<open>timestamp\<close> is the text
  \<^verbatim>\<open>datetime.now().strftime("%Y%m%d_%H%M%S")\<close> returns.
\<close>

definition url_filename :: "env \<Rightarrow> string \<Rightarrow> string \<Rightarrow> string" where
  "url_filename e timestamp url =
     (let url_path = urlparse_path e url;
          filename = basename url_path
      in if filename = [] \<or> length filename < 5
         then ''civitai_model_'' @ timestamp @ ''.safetensors''
         else filename)"

text \<open>
  The name the file is saved under: the caller's name if it gave one (\<^verbatim>\<open>if not filename\<close>
  holds for \<^verbatim>\<open>None\<close> and for the empty text), and \<^verbatim>\<open>.safetensors\<close> appended when
  \<^verbatim>\<open>os.path.splitext\<close> finds no extension.
\<close>

definition model_filename :: "env \<Rightarrow> string \<Rightarrow> string \<Rightarrow> string option \<Rightarrow> string" where
  "model_filename e timestamp url filename =
     (let filename1 = (case filename of
                         None \<Rightarrow> url_filename e timestamp url
                       | Some f \<Rightarrow> if f = [] then url_filename e timestamp url else f)
      in if snd (splitext filename1) = [] then filename1 @ ''.safetensors'' else filename1)"

text \<open>
  \<^verbatim>\<open>download_model_file\<close>. The request and \<^verbatim>\<open>raise_for_status\<close> are inside the \<^verbatim>\<open>try\<close>
  block, whose handler returns \<^verbatim>\<open>None\<close> (\<open>Inr None\<close>) for the exceptions of the request;
  any other exception leaves the function. \<^verbatim>\<open>Path(output_dir).mkdir(parents=True,
  exist_ok=True)\<close> creates the directory, in pathlib's normal form, with its ancestors,
  and fails where \<^verbatim>\<open>os.makedirs\<close> fails. The chunks of the body are written one after
  the other: the file holds the body. The \<^verbatim>\<open>content-length\<close> header, taken to be a
  number when present, is read for the progress display only. The request carries no
  headers.
\<close>

definition download_model_file ::
  "env \<Rightarrow> string \<Rightarrow> string \<Rightarrow> string \<Rightarrow> string option \<Rightarrow> state
    \<Rightarrow> (exn + string option) \<times> state" where
  "download_model_file e timestamp url output_dir filename st =
     (case get_content e url of
        Inl x \<Rightarrow> (if is_request_exception x then Inr None else Inl x, st)
      | Inr (status_code, body) \<Rightarrow>
          (case raise_for_status status_code of
             Some x \<Rightarrow> (Inr None, st)
           | None \<Rightarrow>
               (case makedirs (pure_path output_dir) st of
                  Inl x \<Rightarrow> (Inl x, st)
                | Inr st' \<Rightarrow>
                    (let file_path = os_path_join output_dir
                                       (model_filename e timestamp url filename)
                     in (Inr (Some file_path), write_file file_path (Bytes body) st')))))"

text \<open>
  A world that serves three model files, and the time of the call used in the examples.
\<close>

definition model_env :: env where
  "model_env = quiet_env
     \<lparr>get_content := (\<lambda>u. if u = ''https://civitai.example/files/model.ckpt'' then Inr (200, ''ckpt-bytes'')
                           else if u = ''https://civitai.example/api/download/models/12345'' then Inr (200, ''lora-bytes'')
                           else if u = ''https://civitai.example/d/42'' then Inr (200, ''tiny-bytes'')
                           else if u = ''https://civitai.example/gone'' then Inr (404, [])
                           else Inl ConnectionError),
      urlparse_path := (\<lambda>u. drop 23 u)\<rparr>"

definition call_time :: string where
  "call_time = ''20240131_235959''"

section \<open>The model catalogue client\<close>

text \<open>
  \<^verbatim>\<open>get_api_key\<close>: the key is read from the environment (\<^verbatim>\<open>os.environ\<close>, a map from
  names to texts); without a key, or with an empty one, the program is left by
  \<^verbatim>\<open>sys.exit(1)\<close>.
\<close>

definition get_api_key :: "(string \<rightharpoonup> string) \<Rightarrow> exn + string" where
  "get_api_key environ =
     (case environ ''CIVITAI_API_KEY'' of
        None \<Rightarrow> Inl (SystemExit 1)
      | Some api_key \<Rightarrow> if api_key = [] then Inl (SystemExit 1) else Inr api_key)"

text \<open>
  A request as \<^verbatim>\<open>requests.get\<close> receives it: the URL, the query parameters and the
  headers, in the order the dictionaries were filled. A parameter is a text or a number;
  an argument that is a text or a list of texts is a \<open>strs\<close>.
\<close>

datatype pval = PStr string | PInt int

datatype strs = OneStr string | StrList "string list"

record request =
  req_url :: string
  req_params :: "(string \<times> pval) list"
  req_headers :: "(string \<times> string) list"

text \<open>\<^verbatim>\<open>if v: params[key] = v\<close>, for a text, a number, and a text or list of texts.\<close>

definition str_param :: "string \<Rightarrow> string option \<Rightarrow> (string \<times> pval) list" where
  "str_param key v =
     (case v of None \<Rightarrow> [] | Some s \<Rightarrow> if s = [] then [] else [(key, PStr s)])"

definition int_param :: "string \<Rightarrow> int option \<Rightarrow> (string \<times> pval) list" where
  "int_param key v =
     (case v of None \<Rightarrow> [] | Some i \<Rightarrow> if i = 0 then [] else [(key, PInt i)])"

definition strs_param :: "string \<Rightarrow> strs option \<Rightarrow> (string \<times> pval) list" where
  "strs_param key v =
     (case v of
        None \<Rightarrow> []
      | Some (OneStr s) \<Rightarrow> if s = [] then [] else [(key, PStr s)]
      | Some (StrList l) \<Rightarrow> if l = [] then [] else [(key, PStr (join_sep '','' l))])"

text \<open>
  The headers of a request (\<^verbatim>\<open>headers = {}\<close>, then \<^verbatim>\<open>if api_key:\<close>): the same three
  lines in \<^verbatim>\<open>search_models\<close> and in \<^verbatim>\<open>get_model_versions\<close>.
\<close>

definition auth_headers :: "string option \<Rightarrow> (string \<times> string) list" where
  "auth_headers api_key =
     (case api_key of
        None \<Rightarrow> []
      | Some k \<Rightarrow> if k = [] then [] else [(''Authorization'', ''Bearer '' @ k)])"

text \<open>
  \<^verbatim>\<open>search_models\<close>: the request it builds, and the call. \<open>get\<close> is \<^verbatim>\<open>requests.get\<close>:
  it raises or answers with a status and a body, read as the document
  \<^verbatim>\<open>response.json()\<close> returns. An exception of the request, or an error status, ends the
  program with \<^verbatim>\<open>sys.exit(1)\<close>.
\<close>

definition search_request ::
  "string option \<Rightarrow> int option \<Rightarrow> int option \<Rightarrow> string option \<Rightarrow> string option
    \<Rightarrow> string option \<Rightarrow> strs option \<Rightarrow> strs option \<Rightarrow> strs option \<Rightarrow> string option
    \<Rightarrow> string option \<Rightarrow> request" where
  "search_request query limit page_arg nsfw sort_arg period types baseModels tags username api_key =
     (let base_url = ''https://civitai.com/api/v1/models'';
          params = str_param ''query'' query
                   @ int_param ''limit'' limit
                   @ int_param ''page'' page_arg
                   @ (case nsfw of None \<Rightarrow> [] | Some v \<Rightarrow> [(''nsfw'', PStr v)])
                   @ str_param ''sort'' sort_arg
                   @ str_param ''period'' period
                   @ strs_param ''types'' types
                   @ strs_param ''baseModels'' baseModels
                   @ strs_param ''tags'' tags
                   @ str_param ''username'' username;
          headers = auth_headers api_key
      in \<lparr>req_url = base_url, req_params = params, req_headers = headers\<rparr>)"

definition search_models ::
  "(request \<Rightarrow> exn + nat \<times> json) \<Rightarrow> string option \<Rightarrow> int option \<Rightarrow> int option
    \<Rightarrow> string option \<Rightarrow> string option \<Rightarrow> string option \<Rightarrow> strs option \<Rightarrow> strs option
    \<Rightarrow> strs option \<Rightarrow> string option \<Rightarrow> string option \<Rightarrow> exn + json" where
  "search_models get query limit page_arg nsfw sort_arg period types baseModels tags username
       api_key =
     (case get (search_request query limit page_arg nsfw sort_arg period types baseModels tags
                  username api_key) of
        Inl x \<Rightarrow> if is_request_exception x then Inl (SystemExit 1) else Inl x
      | Inr (status_code, body) \<Rightarrow>
          (case raise_for_status status_code of
             Some x \<Rightarrow> Inl (SystemExit 1)
           | None \<Rightarrow> Inr body))"

text \<open>Python's \<^verbatim>\<open>str\<close> of an integer, as an f-string inserts it.\<close>

fun str_nat :: "nat \<Rightarrow> string" where
  "str_nat n =
     (if n < 10 then [''0123456789'' ! n]
      else str_nat (n div 10) @ [''0123456789'' ! (n mod 10)])"

declare str_nat.simps [simp del]

definition str_int :: "int \<Rightarrow> string" where
  "str_int i = (if i < 0 then CHR ''-'' # str_nat (nat (- i)) else str_nat (nat i))"

text \<open>
  \<^verbatim>\<open>get_model_versions\<close>: the request it builds, and the call; here an exception of the
  request, or an error status, gives \<^verbatim>\<open>None\<close>.
\<close>

definition model_request :: "int \<Rightarrow> string option \<Rightarrow> request" where
  "model_request model_id api_key =
     \<lparr>req_url = ''https://civitai.com/api/v1/models/'' @ str_int model_id,
      req_params = [],
      req_headers = auth_headers api_key\<rparr>"

definition get_model_versions ::
  "(request \<Rightarrow> exn + nat \<times> json) \<Rightarrow> int \<Rightarrow> string option \<Rightarrow> exn + json option" where
  "get_model_versions get model_id api_key =
     (case get (model_request model_id api_key) of
        Inl x \<Rightarrow> if is_request_exception x then Inr None else Inl x
      | Inr (status_code, body) \<Rightarrow>
          (case raise_for_status status_code of
             Some x \<Rightarrow> Inr None
           | None \<Rightarrow> Inr (Some body)))"

text \<open>
  The arguments of the command line that \<^verbatim>\<open>main\<close> passes to the two functions above
  (\<^verbatim>\<open>args.query\<close>, ...; \<^verbatim>\<open>--limit\<close> and \<^verbatim>\<open>--page\<close> have a default and are always numbers).
\<close>

record args =
  arg_query :: "string option"
  arg_limit :: int
  arg_page :: int
  arg_nsfw :: "string option"
  arg_sort :: "string option"
  arg_period :: "string option"
  arg_types :: "string option"
  arg_baseModels :: "string option"
  arg_tags :: "string option"
  arg_username :: "string option"
  arg_model_id :: "int option"

text \<open>\<^verbatim>\<open>args.types.split(',') if args.types else None\<close>.\<close>

definition split_arg :: "string option \<Rightarrow> strs option" where
  "split_arg v =
     (case v of
        None \<Rightarrow> None
      | Some s \<Rightarrow> if s = [] then None else Some (StrList (split_on (CHR '','') s)))"

text \<open>
  The start of \<^verbatim>\<open>main\<close>, up to the request it sends first: the key is read before
  anything else, then the details of one model are requested if \<^verbatim>\<open>--model_id\<close> is given
  (and not 0), the search otherwise, both with the key. The result is that request, or
  the exception that ends the program before any request. What \<^verbatim>\<open>main\<close> does with the
  answer (the display of the results and the downloads the user asks for) is not
  modelled.
\<close>

definition main_request :: "(string \<rightharpoonup> string) \<Rightarrow> args \<Rightarrow> exn + request" where
  "main_request environ a =
     (case get_api_key environ of
        Inl x \<Rightarrow> Inl x
      | Inr api_key \<Rightarrow>
          (if arg_model_id a \<noteq> None \<and> arg_model_id a \<noteq> Some 0
           then Inr (model_request (the (arg_model_id a)) (Some api_key))
           else Inr (search_request (arg_query a) (Some (arg_limit a)) (Some (arg_page a))
                       (arg_nsfw a) (arg_sort a) (arg_period a) (split_arg (arg_types a))
                       (split_arg (arg_baseModels a)) (split_arg (arg_tags a))
                       (arg_username a) (Some api_key))))"

text \<open>The command line \<^verbatim>\<open>--query anime\<close>, and a service that answers every request.\<close>

definition query_args :: args where
  "query_args =
     \<lparr>arg_query = Some ''anime'', arg_limit = 10, arg_page = 1, arg_nsfw = None,
      arg_sort = None, arg_period = None, arg_types = None, arg_baseModels = None,
      arg_tags = None, arg_username = None, arg_model_id = None\<rparr>"

definition open_service :: "request \<Rightarrow> exn + nat \<times> json" where
  "open_service r = Inr (200, JObj [(''items'', JArr [])])"

section \<open>The page crawler\<close>

text \<open>\<^verbatim>\<open>is_image_url\<close>: the path of the URL, in lower case, ends with an image extension.\<close>

definition is_image_url :: "env \<Rightarrow> string \<Rightarrow> bool" where
  "is_image_url e u =
     (let path = lower (urlparse_path e u)
      in \<exists>ext \<in> set [''.jpg'', ''.jpeg'', ''.png'', ''.gif'', ''.webp'']. endswith path ext)"







section \<open>Properties\<close>

text \<open>
  C10. An image whose metadata field parses to a JSON value that Python counts as false
  (the empty object, null, zero, false, the empty string, the empty array) is treated as
  an image without workflow: \<open>download_file\<close> returns nothing and the directory loop
  writes nothing for it (the file is still counted in the total), \<open>save_workflow_as_json\<close>
  returns nothing and leaves the state as it was, and both image loops go on to the next
  image with the state unchanged.
\<close>

theorem falsy_metadata_not_persisted:
  assumes "image_open e image_data = Some info"
    and "workflow_field info = Some payload"
    and "payload \<noteq> []"
    and "json_loads e payload = Some v"
    and "\<not> truthy v"
    and "get_content e (download_url it) = Inr (status_code, image_data)"
    and "type it = ''file''"
  shows "download_file e it FILE_TYPE_IMAGE = Inr None
       \<and> process_items n e owner repo path output_dir recursive FILE_TYPE_IMAGE [it] total_files downloaded_files st
           = Some (Inr (if matches_file_type FILE_TYPE_IMAGE (name it) then total_files + 1 else total_files,
                        downloaded_files), st)
       \<and> save_workflow_as_json (extract_workflow_from_image e image_data) image_path output_dir st
           = (None, st)
       \<and> save_workflows e output_dir (image_data # image_files) st
           = save_workflows e output_dir image_files st
       \<and> pwt_loop e template_dir ((filename, image_data) # rest) st
           = pwt_loop e template_dir rest st"
proof -
  have ex: "\<not> truthy (extract_workflow_from_image e image_data)"
    using assms(1-5) by (simp add: extract_workflow_from_image_def)
  have dl: "download_file e it FILE_TYPE_IMAGE = Inr None"
    using assms(6,7) ex
    by (simp add: download_file_def Let_def FILE_TYPE_IMAGE_def FILE_TYPE_JSON_def)
  have pi: "process_items n e owner repo path output_dir recursive FILE_TYPE_IMAGE [it] total_files downloaded_files st
           = Some (Inr (if matches_file_type FILE_TYPE_IMAGE (name it) then total_files + 1 else total_files,
                        downloaded_files), st)"
    using assms(7) dl by simp
  have sv: "save_workflow_as_json (extract_workflow_from_image e image_data) image_path output_dir st
           = (None, st)"
    using ex by (simp add: save_workflow_as_json_def)
  have sw: "save_workflows e output_dir (image_data # image_files) st
           = save_workflows e output_dir image_files st"
    using ex by (simp add: Let_def)
  have pw: "pwt_loop e template_dir ((filename, image_data) # rest) st
           = pwt_loop e template_dir rest st"
    using assms(1-5) by (simp add: pwt_extract_workflow_from_image_def)
  from dl pi sv sw pw show ?thesis by blast
qed

theorem falsy_metadata_not_persisted_witness:
  "download_file falsy_env \<lparr>name = ''blank.png'', type = ''file'',
       download_url = ''https://raw.example/blank.png''\<rparr> FILE_TYPE_IMAGE = Inr None
   \<and> process_items 0 falsy_env ''o'' ''r'' '''' ''out'' True FILE_TYPE_IMAGE
        [\<lparr>name = ''blank.png'', type = ''file'',
          download_url = ''https://raw.example/blank.png''\<rparr>] 0 0 empty_state
       = Some (Inr (1, 0), empty_state)
   \<and> save_workflow_as_json (extract_workflow_from_image falsy_env ''blank-png'')
        ''images/blank.png'' ''out'' empty_state = (None, empty_state)
   \<and> pwt_loop falsy_env ''tools/workflow_templates'' [(''blank.png'', ''blank-png'')] empty_state
       = (None, empty_state)"
proof -
  have a1: "image_open falsy_env ''blank-png'' = Some [''workflow'' \<mapsto> ''{}'']"
    by (simp add: falsy_env_def quiet_env_def)
  have a2: "workflow_field [''workflow'' \<mapsto> ''{}''] = Some ''{}''"
    by (simp add: workflow_field_def)
  have a2': "''{}'' \<noteq> []" by simp
  have a3: "json_loads falsy_env ''{}'' = Some (JObj [])"
    by (simp add: falsy_env_def quiet_env_def)
  have a4: "\<not> truthy (JObj [])" by simp
  have a5: "get_content falsy_env (download_url \<lparr>name = ''blank.png'', type = ''file'',
       download_url = ''https://raw.example/blank.png''\<rparr>) = Inr (200, ''blank-png'')"
    by (simp add: falsy_env_def quiet_env_def)
  have a6: "type \<lparr>name = ''blank.png'', type = ''file'',
       download_url = ''https://raw.example/blank.png''\<rparr> = ''file''" by simp
  have m: "matches_file_type FILE_TYPE_IMAGE ''blank.png''"
    by (simp add: matches_file_type_def FILE_TYPE_IMAGE_def FILE_TYPE_JSON_def
        SUPPORTED_IMAGE_EXTENSIONS_def path_suffix_def path_name_def last_dot_split_def
        after_last_def lower_def lower_char_def Let_def)
  show ?thesis
    using falsy_metadata_not_persisted [OF a1 a2 a2' a3 a4 a5 a6, of 0 "''o''" "''r''" "''''" "''out''"
        True 0 0 empty_state "''images/blank.png''" "[]" "''tools/workflow_templates''"
        "''blank.png''" "[]"] m
    by simp
qed

lemma takeWhile_run:
  "\<forall>x \<in> set xs. P x \<Longrightarrow> ys = [] \<or> \<not> P (hd ys) \<Longrightarrow> takeWhile P (xs @ ys) = xs"
  by (cases ys) (simp_all add: takeWhile_tail)

lemma skip_prefix:
  assumes "pre \<in> set url_prefixes"
  shows "skip_www (skip_scheme (pre @ ''github.com/'' @ r)) = ''github.com/'' @ r"
  using assms
  by (auto simp add: url_prefixes_def skip_www_def skip_scheme_def startswith_def)

lemma match_owner_repo_url:
  assumes "pre \<in> set url_prefixes"
    and "owner \<noteq> []" and "CHR ''/'' \<notin> set owner"
    and "repo \<noteq> []" and "CHR ''/'' \<notin> set repo"
    and "rest = [] \<or> hd rest = CHR ''/''"
  shows "match_owner_repo (pre @ ''github.com/'' @ owner @ ''/'' @ repo @ rest)
           = Some (owner, repo, rest)"
proof -
  have o: "takeWhile (\<lambda>c. c \<noteq> CHR ''/'') (owner @ ''/'' @ repo @ rest) = owner"
    using assms(3) by (intro takeWhile_run) auto
  have r: "takeWhile (\<lambda>c. c \<noteq> CHR ''/'') (repo @ rest) = repo"
    using assms(5,6) by (intro takeWhile_run) auto
  have s: "skip_www (skip_scheme (pre @ ''github.com/'' @ owner @ ''/'' @ repo @ rest))
             = ''github.com/'' @ (owner @ ''/'' @ repo @ rest)"
    using assms(1) by (rule skip_prefix)
  have d: "drop 11 (''github.com/'' @ (owner @ ''/'' @ repo @ rest)) = owner @ ''/'' @ repo @ rest"
    by simp
  have st: "startswith (''github.com/'' @ (owner @ ''/'' @ repo @ rest)) ''github.com/''"
    by (simp add: startswith_def)
  show ?thesis
    unfolding match_owner_repo_def s Let_def d o
    using assms(2,4) r st by (simp add: startswith_def)
qed

lemma split_on_no_sep: "c \<notin> set s \<Longrightarrow> split_on c s = [s]"
  by (induction s) auto

lemma tree_match_url:
  assumes "pre \<in> set url_prefixes"
    and "owner \<noteq> []" and "CHR ''/'' \<notin> set owner"
    and "repo \<noteq> []" and "CHR ''/'' \<notin> set repo"
    and "branch \<noteq> []" and "CHR ''/'' \<notin> set branch"
    and "path \<noteq> []" and "CHR 0x0A \<notin> set path"
  shows "tree_match (pre @ ''github.com/'' @ owner @ ''/'' @ repo @ ''/tree/'' @ branch @ ''/'' @ path)
           = Some (branch, path)"
proof -
  have m: "match_owner_repo (pre @ ''github.com/'' @ owner @ ''/'' @ repo @ (''/tree/'' @ branch @ ''/'' @ path))
             = Some (owner, repo, ''/tree/'' @ branch @ ''/'' @ path)"
    using assms(1-5) by (intro match_owner_repo_url) auto
  have b: "takeWhile (\<lambda>c. c \<noteq> CHR ''/'') (branch @ ''/'' @ path) = branch"
    using assms(7) by (intro takeWhile_run) auto
  have p: "takeWhile (\<lambda>c. c \<noteq> CHR 0x0A) path = path"
    using assms(9) by (auto simp add: takeWhile_eq_all_conv)
  show ?thesis
    using m b assms(6,8)
    by (simp add: tree_match_def startswith_def Let_def p)
qed

lemma after_last_none: "c \<notin> set s \<Longrightarrow> after_last c s = s"
proof -
  assume "c \<notin> set s"
  then have h: "takeWhile (\<lambda>x. x \<noteq> c) (rev s) = rev s"
    by (auto simp add: takeWhile_eq_all_conv)
  show ?thesis unfolding after_last_def h by simp
qed

lemma after_last_append: "c \<notin> set e \<Longrightarrow> after_last c (b @ c # e) = e"
proof -
  assume a: "c \<notin> set e"
  have "takeWhile (\<lambda>x. x \<noteq> c) (rev e @ c # rev b) = takeWhile (\<lambda>x. x \<noteq> c) (rev e)"
    by (rule takeWhile_tail) simp
  then have "after_last c (b @ c # e) = after_last c e"
    by (simp add: after_last_def)
  then show ?thesis using a by (simp add: after_last_none)
qed

lemma last_dot_split_ext:
  "CHR ''.'' \<notin> set e \<Longrightarrow> last_dot_split (b @ ''.'' @ e) = Some (b, e)"
  using after_last_append [of "CHR ''.''" e b]
  by (simp add: last_dot_split_def Let_def)

lemma basename_in_dir:
  assumes "CHR ''/'' \<notin> set f" and "dir = [] \<or> last dir = CHR ''/''"
  shows "basename (dir @ f) = f"
proof (cases "dir = []")
  case True
  then show ?thesis using assms(1) by (simp add: basename_def after_last_none)
next
  case False
  then obtain d where d: "dir = d @ [CHR ''/'']"
    using assms(2) by (metis append_butlast_last_id)
  have "after_last (CHR ''/'') (d @ CHR ''/'' # f) = f"
    using assms(1) by (rule after_last_append)
  then show ?thesis by (simp add: basename_def d)
qed

lemma splitext_file:
  assumes "CHR ''/'' \<notin> set stem" and "\<exists>c \<in> set stem. c \<noteq> CHR ''.''"
    and "CHR ''/'' \<notin> set ext" and "CHR ''.'' \<notin> set ext"
  shows "splitext (stem @ ''.'' @ ext) = (stem, ''.'' @ ext)"
proof -
  have b: "basename (stem @ ''.'' @ ext) = stem @ ''.'' @ ext"
    using assms(1,3) by (simp add: basename_def after_last_none)
  show ?thesis
    unfolding splitext_def b Let_def last_dot_split_ext [OF assms(4)]
    using assms(2) by simp
qed

lemma path_name_file:
  assumes "CHR ''/'' \<notin> set f" and "f \<noteq> []" and "f \<noteq> ''.''"
  shows "path_name f = f"
  using assms by (simp add: path_name_def split_on_no_sep)

lemma path_stem_file:
  assumes "CHR ''/'' \<notin> set stem" and "stem \<noteq> []"
    and "CHR ''/'' \<notin> set ext" and "CHR ''.'' \<notin> set ext" and "ext \<noteq> []"
  shows "path_stem (stem @ ''.'' @ ext) = stem"
proof -
  have n: "path_name (stem @ ''.'' @ ext) = stem @ ''.'' @ ext"
    using assms by (intro path_name_file) (auto simp add: append_eq_Cons_conv)
  show ?thesis
    unfolding path_stem_def n last_dot_split_ext [OF assms(4)]
    using assms(2,5) by simp
qed

text \<open>
  C6 (as amended). For a source file \<^verbatim>\<open><stem>.<ext>\<close> (the extension without a dot, the
  stem with a character other than a dot), the destination name is the stem, a suffix
  that is fixed for each persist path, and \<^verbatim>\<open>.json\<close>: the suffix is \<^verbatim>\<open>_workflow\<close> in
  \<open>save_workflow_as_json\<close>, \<^verbatim>\<open>_metadata\<close> in the template parser, and empty in the
  hosted-tree crawler, which saves an image's document under \<^verbatim>\<open><stem>.json\<close> and a JSON
  file under its own name. Each name is a function of the source name alone.
\<close>

theorem destination_names:
  assumes "CHR ''/'' \<notin> set stem" and "\<exists>c \<in> set stem. c \<noteq> CHR ''.''"
    and "CHR ''/'' \<notin> set ext" and "CHR ''.'' \<notin> set ext" and "ext \<noteq> []"
    and "dir = [] \<or> last dir = CHR ''/''"
  shows "workflow_json_path (dir @ stem @ ''.'' @ ext) output_dir
           = os_path_join output_dir (stem @ ''_workflow'' @ ''.json'')
       \<and> metadata_json_path template_dir (stem @ ''.'' @ ext)
           = os_path_join template_dir (stem @ ''_metadata'' @ ''.json'')
       \<and> path_stem (stem @ ''.'' @ ext) @ ''.json'' = stem @ ''.json''
       \<and> (\<forall>fd. download_file e it FILE_TYPE_IMAGE = Inr (Some fd)
             \<longrightarrow> save_name fd = path_stem (name it) @ ''.json'')
       \<and> (\<forall>fd. download_file e it FILE_TYPE_JSON = Inr (Some fd)
             \<longrightarrow> save_name fd = name it)"
proof -
  have bn: "basename (dir @ (stem @ ''.'' @ ext)) = stem @ ''.'' @ ext"
    using assms(1,3,6) by (intro basename_in_dir) auto
  have sp: "splitext (stem @ ''.'' @ ext) = (stem, ''.'' @ ext)"
    using assms(1-4) by (rule splitext_file)
  have w: "workflow_json_path (dir @ stem @ ''.'' @ ext) output_dir
           = os_path_join output_dir (stem @ ''_workflow'' @ ''.json'')"
    using bn sp by (simp add: workflow_json_path_def Let_def)
  have m: "metadata_json_path template_dir (stem @ ''.'' @ ext)
           = os_path_join template_dir (stem @ ''_metadata'' @ ''.json'')"
    using sp by (simp add: metadata_json_path_def)
  have ne: "stem \<noteq> []" using assms(2) by auto
  have st: "path_stem (stem @ ''.'' @ ext) @ ''.json'' = stem @ ''.json''"
    using path_stem_file [OF assms(1) ne assms(3,4,5)] by simp
  have di: "\<forall>fd. download_file e it FILE_TYPE_IMAGE = Inr (Some fd)
             \<longrightarrow> save_name fd = path_stem (name it) @ ''.json''"
    by (auto simp add: download_file_def Let_def FILE_TYPE_IMAGE_def FILE_TYPE_JSON_def
        split: if_splits sum.splits prod.splits option.splits)
  have dj: "\<forall>fd. download_file e it FILE_TYPE_JSON = Inr (Some fd)
             \<longrightarrow> save_name fd = name it"
    by (auto simp add: download_file_def Let_def FILE_TYPE_IMAGE_def FILE_TYPE_JSON_def
        split: if_splits sum.splits prod.splits option.splits)
  from w m st di dj show ?thesis by blast
qed

theorem destination_names_witness:
  "workflow_json_path ''tools/images/pic.png'' ''tools/workflow_templates''
     = ''tools/workflow_templates/pic_workflow.json''
   \<and> metadata_json_path ''tools/workflow_templates'' ''pic.png''
     = ''tools/workflow_templates/pic_metadata.json''
   \<and> path_stem ''pic.png'' @ ''.json'' = ''pic.json''"
proof -
  have a: "CHR ''/'' \<notin> set ''pic''" "\<exists>c \<in> set ''pic''. c \<noteq> CHR ''.''"
    "CHR ''/'' \<notin> set ''png''" "CHR ''.'' \<notin> set ''png''" "''png'' \<noteq> []"
    "''tools/images/'' = [] \<or> last ''tools/images/'' = CHR ''/''" by simp_all
  show ?thesis
    using destination_names [OF a, of "''tools/workflow_templates''"
        "''tools/workflow_templates''" quiet_env
        "\<lparr>name = ''pic.png'', type = ''file'', download_url = []\<rparr>"]
    by (simp add: os_path_join_def startswith_def endswith_def)
qed

text \<open>
  C6 as stated fails: the hosted-tree crawler appends no suffix (\<^verbatim>\<open>pic.png\<close> is saved as
  \<^verbatim>\<open>pic.json\<close>, \<^verbatim>\<open>wf.json\<close> as \<^verbatim>\<open>wf.json\<close>), and the two other paths append different ones.
\<close>

theorem fixed_suffix_counterexample:
  "workflow_json_path ''tools/images/pic.png'' ''out'' = ''out/pic_workflow.json''
   \<and> metadata_json_path ''out'' ''pic.png'' = ''out/pic_metadata.json''
   \<and> download_file wf_env
        \<lparr>name = ''pic.png'', type = ''file'', download_url = ''https://raw.example/pic.png''\<rparr>
        FILE_TYPE_IMAGE
       = Inr (Some \<lparr>save_name = ''pic.json'', document = JArr [JInt 1]\<rparr>)
   \<and> download_file wf_env
        \<lparr>name = ''wf.json'', type = ''file'', download_url = ''https://raw.example/wf.json''\<rparr>
        FILE_TYPE_JSON
       = Inr (Some \<lparr>save_name = ''wf.json'', document = JArr [JInt 1]\<rparr>)"
  by (simp add: workflow_json_path_def metadata_json_path_def basename_def after_last_def
      splitext_def last_dot_split_def os_path_join_def startswith_def endswith_def Let_def
      download_file_def FILE_TYPE_IMAGE_def FILE_TYPE_JSON_def SUPPORTED_IMAGE_EXTENSIONS_def
      path_suffix_def path_stem_def path_name_def lower_def lower_char_def
      extract_workflow_from_image_def workflow_field_def wf_env_def quiet_env_def)

lemma count_matching_simps:
  "count_matching ft [] = 0"
  "count_matching ft (RFile n u # ns) = (if matches_file_type ft n then 1 else 0) + count_matching ft ns"
  "count_matching ft (RDir n children # ns) = count_matching ft children + count_matching ft ns"
  "count_matching ft (RLink n # ns) = count_matching ft ns"
  by (simp_all add: count_matching_def)

lemma download_file_returns:
  assumes "get_content e (download_url it) = Inr r"
  shows "\<exists>x. download_file e it ft = Inr x"
  using assms
  by (cases r) (simp add: download_file_def Let_def split: option.splits)

lemma requests_save_file_data: "requests (save_file_data output_dir fd st) = requests st"
  by (simp add: save_file_data_def write_file_def)

lemma process_items_served:
  assumes dl: "\<forall>u. \<exists>r. get_content e u = Inr r"
    and dirs: "\<And>p ns s. serves e owner repo p ns \<Longrightarrow> foldr max (map depth ns) 0 < fuel \<Longrightarrow>
        \<exists>d s'. process_directory fuel e owner repo p output_dir True ft s
                  = Some (Inr (count_matching ft ns, d), s')
              \<and> requests s' = requests s
                  @ map (contents_url owner repo) (p # concat (map (dirs_of p) ns))
              \<and> d \<le> count_matching ft ns"
  shows "\<forall>n \<in> set nodes. serves_node e owner repo path n \<Longrightarrow>
         foldr max (map depth nodes) 0 \<le> fuel \<Longrightarrow>
         \<exists>d s'. process_items fuel e owner repo path output_dir True ft (map item_of nodes) t d0 st
                   = Some (Inr (t + count_matching ft nodes, d), s')
               \<and> requests s' = requests st
                   @ map (contents_url owner repo) (concat (map (dirs_of path) nodes))
               \<and> d0 \<le> d \<and> d \<le> d0 + count_matching ft nodes"
proof (induction nodes arbitrary: t d0 st)
  case Nil
  then show ?case by (simp add: count_matching_simps)
next
  case (Cons n ns)
  have sv: "\<forall>n \<in> set ns. serves_node e owner repo path n" using Cons.prems(1) by simp
  have dp: "foldr max (map depth ns) 0 \<le> fuel" using Cons.prems(2) by simp
  note IH = Cons.IH [OF sv dp]
  show ?case
  proof (cases n)
    case (RFile nm u)
    show ?thesis
    proof (cases "matches_file_type ft nm")
      case False
      from IH [of t d0 st] obtain d s' where
        "process_items fuel e owner repo path output_dir True ft (map item_of ns) t d0 st
           = Some (Inr (t + count_matching ft ns, d), s')"
        "requests s' = requests st @ map (contents_url owner repo) (concat (map (dirs_of path) ns))"
        "d0 \<le> d" "d \<le> d0 + count_matching ft ns" by blast
      then show ?thesis using RFile False by (simp add: count_matching_simps)
    next
      case True
      from dl obtain r where "get_content e u = Inr r" by blast
      then obtain x where x: "download_file e (item_of n) ft = Inr x"
        using download_file_returns [of e "item_of n" r ft] RFile by auto
      show ?thesis
      proof (cases x)
        case None
        from IH [of "t + 1" d0 st] obtain d s' where
          "process_items fuel e owner repo path output_dir True ft (map item_of ns) (t + 1) d0 st
             = Some (Inr (t + 1 + count_matching ft ns, d), s')"
          "requests s' = requests st @ map (contents_url owner repo) (concat (map (dirs_of path) ns))"
          "d0 \<le> d" "d \<le> d0 + count_matching ft ns" by blast
        then show ?thesis using RFile True x None by (simp add: count_matching_simps)
      next
        case (Some fd)
        from IH [of "t + 1" "d0 + 1" "save_file_data output_dir fd st"] obtain d s' where
          "process_items fuel e owner repo path output_dir True ft (map item_of ns) (t + 1) (d0 + 1)
             (save_file_data output_dir fd st)
             = Some (Inr (t + 1 + count_matching ft ns, d), s')"
          "requests s' = requests (save_file_data output_dir fd st)
             @ map (contents_url owner repo) (concat (map (dirs_of path) ns))"
          "d0 + 1 \<le> d" "d \<le> d0 + 1 + count_matching ft ns" by blast
        then show ?thesis using RFile True x Some
          by (simp add: count_matching_simps requests_save_file_data)
      qed
    qed
  next
    case (RDir nm children)
    have c1: "serves e owner repo (subdir_path path nm) children"
      using Cons.prems(1) RDir by simp
    have c2: "foldr max (map depth children) 0 < fuel"
      using Cons.prems(2) RDir by simp
    from dirs [OF c1 c2, of st] obtain d1 s1 where
      d1: "process_directory fuel e owner repo (subdir_path path nm) output_dir True ft st
             = Some (Inr (count_matching ft children, d1), s1)"
      and r1: "requests s1 = requests st @ map (contents_url owner repo)
                 (subdir_path path nm # concat (map (dirs_of (subdir_path path nm)) children))"
      and b1: "d1 \<le> count_matching ft children" by blast
    from IH [of "t + count_matching ft children" "d0 + d1" s1] obtain d s' where
      "process_items fuel e owner repo path output_dir True ft (map item_of ns)
         (t + count_matching ft children) (d0 + d1) s1
         = Some (Inr (t + count_matching ft children + count_matching ft ns, d), s')"
      "requests s' = requests s1 @ map (contents_url owner repo) (concat (map (dirs_of path) ns))"
      "d0 + d1 \<le> d" "d \<le> d0 + d1 + count_matching ft ns" by blast
    then show ?thesis using RDir d1 r1 b1 by (simp add: count_matching_simps)
  next
    case (RLink nm)
    from IH [of t d0 st] obtain d s' where
      "process_items fuel e owner repo path output_dir True ft (map item_of ns) t d0 st
         = Some (Inr (t + count_matching ft ns, d), s')"
      "requests s' = requests st @ map (contents_url owner repo) (concat (map (dirs_of path) ns))"
      "d0 \<le> d" "d \<le> d0 + count_matching ft ns" by blast
    then show ?thesis using RLink by (simp add: count_matching_simps)
  qed
qed

lemma process_directory_served:
  assumes dl: "\<forall>u. \<exists>r. get_content e u = Inr r"
  shows "serves e owner repo path nodes \<Longrightarrow> foldr max (map depth nodes) 0 < fuel \<Longrightarrow>
         \<exists>d s'. process_directory fuel e owner repo path output_dir True ft st
                   = Some (Inr (count_matching ft nodes, d), s')
               \<and> requests s' = requests st
                   @ map (contents_url owner repo) (path # concat (map (dirs_of path) nodes))
               \<and> d \<le> count_matching ft nodes"
proof (induction fuel arbitrary: path nodes st)
  case 0
  then show ?case by simp
next
  case (Suc k)
  have l: "get_listing e (contents_url owner repo path) = Inr (200, map item_of nodes)"
    and sv: "\<forall>n \<in> set nodes. serves_node e owner repo path n"
    using Suc.prems(1) by simp_all
  have dp: "foldr max (map depth nodes) 0 \<le> k" using Suc.prems(2) by simp
  let ?st = "st\<lparr>requests := requests st @ [contents_url owner repo path]\<rparr>"
  have g: "get_repo_contents e owner repo path st = (Inr (map item_of nodes), ?st)"
    using l by (simp add: get_repo_contents_def Let_def)
  from process_items_served [OF dl Suc.IH sv dp, where t = 0 and ?d0.0 = 0 and st = ?st]
  obtain d s' where
    "process_items k e owner repo path output_dir True ft (map item_of nodes) 0 0 ?st
       = Some (Inr (0 + count_matching ft nodes, d), s')"
    "requests s' = requests ?st @ map (contents_url owner repo) (concat (map (dirs_of path) nodes))"
    "d \<le> 0 + count_matching ft nodes" by blast
  then show ?case using g by simp
qed


lemma length_dirs_of:
  "length (dirs_of path n) = dir_count n"
proof (induction n arbitrary: path)
  case (RDir nm children)
  have h: "map (\<lambda>x. length (dirs_of (subdir_path path nm) x)) children = map dir_count children"
    using RDir.IH by (intro map_cong) auto
  show ?case by (simp add: length_concat comp_def h)
qed simp_all

lemma count_matching_sum:
  "count_matching ft nodes
     = sum_list (map (\<lambda>n. length (filter (matches_file_type ft) (files_of n))) nodes)"
  by (induction nodes) (simp_all add: count_matching_def)

lemma count_matching_mset:
  assumes "mset nodes' = mset nodes"
  shows "count_matching ft nodes' = count_matching ft nodes"
proof -
  let ?f = "\<lambda>n. length (filter (matches_file_type ft) (files_of n))"
  have "mset (map ?f nodes') = mset (map ?f nodes)"
    using assms by (metis mset_map)
  then have "sum_list (map ?f nodes') = sum_list (map ?f nodes)"
    by (metis sum_mset_sum_list)
  then show ?thesis by (simp add: count_matching_sum)
qed

text \<open>
  C7. When the world serves a finite tree, no download raises and the nesting of calls
  is not cut short, a recursive run returns: its \<^verbatim>\<open>total_files\<close> is the number of files of
  the requested type in the whole tree, and it is reached by one listing request for the
  root and one for each directory of the tree, each directory once. The count does not
  depend on the order of the entries of the listing.
\<close>

theorem total_files_counts_matching_files:
  assumes "serves e owner repo path nodes"
    and "\<forall>u. \<exists>r. get_content e u = Inr r"
    and "foldr max (map depth nodes) 0 < fuel"
  shows "(\<exists>downloaded st'.
            process_directory fuel e owner repo path output_dir True file_type st
              = Some (Inr (count_matching file_type nodes, downloaded), st')
          \<and> downloaded \<le> count_matching file_type nodes
          \<and> requests st' = requests st
              @ map (contents_url owner repo) (path # concat (map (dirs_of path) nodes))
          \<and> length (requests st') = length (requests st) + 1 + sum_list (map dir_count nodes))
       \<and> (\<forall>nodes'. mset nodes' = mset nodes
             \<longrightarrow> count_matching file_type nodes' = count_matching file_type nodes)"
proof -
  from process_directory_served [OF assms(2,1,3), of output_dir file_type st]
  obtain d s' where
    p: "process_directory fuel e owner repo path output_dir True file_type st
          = Some (Inr (count_matching file_type nodes, d), s')"
    and r: "requests s' = requests st
              @ map (contents_url owner repo) (path # concat (map (dirs_of path) nodes))"
    and b: "d \<le> count_matching file_type nodes" by blast
  have "length (concat (map (dirs_of path) nodes)) = sum_list (map dir_count nodes)"
    by (simp add: length_concat comp_def length_dirs_of)
  then have l: "length (requests s') = length (requests st) + 1 + sum_list (map dir_count nodes)"
    using r by simp
  from p r b l count_matching_mset show ?thesis by blast
qed

theorem total_files_counts_matching_files_witness:
  "(\<exists>downloaded st'.
      process_directory 2 tree_env ''o'' ''r'' ''templates'' ''out'' True ''json'' empty_state
        = Some (Inr (2, downloaded), st')
      \<and> downloaded \<le> 2
      \<and> requests st' = [''https://api.github.com/repos/o/r/contents/templates'',
                        ''https://api.github.com/repos/o/r/contents/templates/sub''])
   \<and> count_matching ''json'' (rev tree_nodes) = 2"
proof -
  have a1: "serves tree_env ''o'' ''r'' ''templates'' tree_nodes"
    by (simp add: tree_nodes_def tree_env_def quiet_env_def contents_url_def GITHUB_API_URL_def
        subdir_path_def)
  have a2: "\<forall>u. \<exists>r. get_content tree_env u = Inr r"
    by (simp add: tree_env_def quiet_env_def)
  have a3: "foldr max (map depth tree_nodes) 0 < 2"
    by (simp add: tree_nodes_def)
  have c: "count_matching ''json'' tree_nodes = 2"
    by (simp add: tree_nodes_def count_matching_def matches_file_type_def FILE_TYPE_JSON_def
        FILE_TYPE_IMAGE_def endswith_def)
  have d: "map (contents_url ''o'' ''r'') (''templates'' # concat (map (dirs_of ''templates'') tree_nodes))
            = [''https://api.github.com/repos/o/r/contents/templates'',
               ''https://api.github.com/repos/o/r/contents/templates/sub'']"
    by (simp add: tree_nodes_def contents_url_def GITHUB_API_URL_def subdir_path_def)
  have m: "mset (rev tree_nodes) = mset tree_nodes" by simp
  from total_files_counts_matching_files [OF a1 a2 a3, of "''out''" "''json''" empty_state]
  show ?thesis unfolding c d using m by (auto simp add: empty_state_def)
qed







lemma makedirs_ok:
  assumes "d \<noteq> []" and "d \<notin> dom (files st)" and "\<forall>a \<in> set (ancestors d). a \<notin> dom (files st)"
  shows "makedirs d st = Inr (st\<lparr>dirs := dirs st \<union> set (ancestors d) \<union> {d}\<rparr>)"
  using assms by (auto simp add: makedirs_def)




text \<open>
  C3 (as amended). \<open>extract_workflow_from_image\<close> parses a payload that is not empty as
  JSON and has no other way: its result is the parsed payload, and no document when the
  payload is no JSON text, whatever the base64 decoding of the payload is (the decoder
  has no influence on the result). The fallback is in \<open>try_decode_data\<close>, which no
  extraction path calls: given a text it returns the parsed text when that parses;
  otherwise the parsed base64 decoding of the text. Its result is \<^verbatim>\<open>None\<close> exactly when
  the text it parsed is \<^verbatim>\<open>null\<close> or both attempts fail.
\<close>

theorem extraction_fallback:
  "(image_open e image_data = Some info \<and> workflow_field info = Some payload
      \<and> json_loads e payload = Some v \<and> payload \<noteq> []
     \<longrightarrow> extract_workflow_from_image e image_data = v)
   \<and> (image_open e image_data = Some info \<and> workflow_field info = Some payload
      \<and> json_loads e payload = None
     \<longrightarrow> extract_workflow_from_image e image_data = JNull)
   \<and> extract_workflow_from_image (e\<lparr>b64decode_utf8 := decode\<rparr>) image_data
       = extract_workflow_from_image e image_data
   \<and> (json_loads e payload = Some v \<longrightarrow> try_decode_data e (Str payload) = v)
   \<and> (json_loads e payload = None \<and> b64decode_utf8 e payload = Some decoded
      \<and> json_loads e decoded = Some v
     \<longrightarrow> try_decode_data e (Str payload) = v)
   \<and> (json_loads e payload = None
      \<and> (b64decode_utf8 e payload = None
          \<or> (\<exists>decoded. b64decode_utf8 e payload = Some decoded \<and> json_loads e decoded = None))
     \<longrightarrow> try_decode_data e (Str payload) = JNull)
   \<and> (try_decode_data e (Str payload) = JNull
       \<longleftrightarrow> json_loads e payload = Some JNull
           \<or> (json_loads e payload = None
               \<and> (b64decode_utf8 e payload = None
                   \<or> (\<exists>decoded. b64decode_utf8 e payload = Some decoded
                         \<and> (json_loads e decoded = None
                             \<or> json_loads e decoded = Some JNull)))))"
proof -
  have a: "image_open e image_data = Some info \<and> workflow_field info = Some payload
      \<and> json_loads e payload = Some v \<and> payload \<noteq> []
     \<longrightarrow> extract_workflow_from_image e image_data = v"
    by (simp add: extract_workflow_from_image_def)
  have b: "image_open e image_data = Some info \<and> workflow_field info = Some payload
      \<and> json_loads e payload = None
     \<longrightarrow> extract_workflow_from_image e image_data = JNull"
    by (simp add: extract_workflow_from_image_def)
  have c: "extract_workflow_from_image (e\<lparr>b64decode_utf8 := decode\<rparr>) image_data
       = extract_workflow_from_image e image_data"
    by (simp add: extract_workflow_from_image_def cong: option.case_cong if_cong)
  have d: "json_loads e payload = Some v \<longrightarrow> try_decode_data e (Str payload) = v"
    by simp
  have f: "json_loads e payload = None \<and> b64decode_utf8 e payload = Some decoded
      \<and> json_loads e decoded = Some v
     \<longrightarrow> try_decode_data e (Str payload) = v"
    by simp
  have g: "json_loads e payload = None
      \<and> (b64decode_utf8 e payload = None
          \<or> (\<exists>decoded. b64decode_utf8 e payload = Some decoded \<and> json_loads e decoded = None))
     \<longrightarrow> try_decode_data e (Str payload) = JNull"
    by auto
  have h: "try_decode_data e (Str payload) = JNull
       \<longleftrightarrow> json_loads e payload = Some JNull
           \<or> (json_loads e payload = None
               \<and> (b64decode_utf8 e payload = None
                   \<or> (\<exists>decoded. b64decode_utf8 e payload = Some decoded
                         \<and> (json_loads e decoded = None
                             \<or> json_loads e decoded = Some JNull))))"
    by (auto split: option.splits)
  from a b c d f g h show ?thesis by blast
qed

theorem extraction_fallback_witness:
  "extract_workflow_from_image b64_env ''b64-png'' = JNull
   \<and> try_decode_data b64_env (Str ''WzFd'') = JArr [JInt 1]
   \<and> try_decode_data b64_env (Str ''[1]'') = JArr [JInt 1]
   \<and> try_decode_data b64_env (Str ''????'') = JNull
   \<and> try_decode_data b64_env (Str ''null'') = JNull"
proof -
  have a1: "image_open b64_env ''b64-png'' = Some [''workflow'' \<mapsto> ''WzFd'']"
    by (simp add: b64_env_def quiet_env_def)
  have a2: "workflow_field [''workflow'' \<mapsto> ''WzFd''] = Some ''WzFd''"
    by (simp add: workflow_field_def)
  have a3: "json_loads b64_env ''WzFd'' = None"
    by (simp add: b64_env_def quiet_env_def)
  have a4: "b64decode_utf8 b64_env ''WzFd'' = Some ''[1]''"
    by (simp add: b64_env_def quiet_env_def)
  have a5: "json_loads b64_env ''[1]'' = Some (JArr [JInt 1])"
    by (simp add: b64_env_def quiet_env_def)
  have a6: "json_loads b64_env ''????'' = None" "b64decode_utf8 b64_env ''????'' = None"
    by (simp_all add: b64_env_def quiet_env_def)
  have a7: "json_loads b64_env ''null'' = Some JNull"
    by (simp add: b64_env_def quiet_env_def)
  from extraction_fallback [of b64_env "''b64-png''" "[''workflow'' \<mapsto> ''WzFd'']" "''WzFd''"
      "JArr [JInt 1]" "b64decode_utf8 b64_env" "''[1]''"] a1 a2 a3 a4 a5
  have p1: "extract_workflow_from_image b64_env ''b64-png'' = JNull"
    and p2: "try_decode_data b64_env (Str ''WzFd'') = JArr [JInt 1]" by blast+
  from extraction_fallback [of b64_env "''b64-png''" "[''workflow'' \<mapsto> ''WzFd'']" "''[1]''"
      "JArr [JInt 1]" "b64decode_utf8 b64_env" "''[1]''"] a5
  have p3: "try_decode_data b64_env (Str ''[1]'') = JArr [JInt 1]" by blast
  from extraction_fallback [of b64_env "''b64-png''" "[''workflow'' \<mapsto> ''WzFd'']" "''????''"
      "JArr [JInt 1]" "b64decode_utf8 b64_env" "''[1]''"] a6
  have p4: "try_decode_data b64_env (Str ''????'') = JNull" by blast
  from extraction_fallback [of b64_env "''b64-png''" "[''workflow'' \<mapsto> ''WzFd'']" "''null''"
      "JNull" "b64decode_utf8 b64_env" "''[1]''"] a7
  have p5: "try_decode_data b64_env (Str ''null'') = JNull" by blast
  from p1 p2 p3 p4 p5 show ?thesis by blast
qed

text \<open>
  C3 as stated fails: for an image whose payload is the base64 encoding of the JSON text
  \<^verbatim>\<open>[1]\<close>, extraction produces no document.
\<close>

theorem extract_base64_counterexample:
  "image_open b64_env ''b64-png'' = Some [''workflow'' \<mapsto> ''WzFd'']
   \<and> b64decode_utf8 b64_env ''WzFd'' = Some ''[1]''
   \<and> json_loads b64_env ''[1]'' = Some (JArr [JInt 1])
   \<and> extract_workflow_from_image b64_env ''b64-png'' = JNull
   \<and> extract_workflow_from_image b64_env ''b64-png'' \<noteq> JArr [JInt 1]"
  by (simp add: extract_workflow_from_image_def workflow_field_def b64_env_def quiet_env_def)

lemma tree_match_none:
  assumes "match_owner_repo url = Some (owner, repo, rest)"
    and "\<not> startswith rest ''/tree/''
         \<or> (\<exists>b. rest = ''/tree/'' @ b \<and> CHR ''/'' \<notin> set b)
         \<or> (\<exists>b. rest = ''/tree/'' @ b @ ''/'' \<and> CHR ''/'' \<notin> set b)"
  shows "tree_match url = None"
proof -
  { assume "\<not> startswith rest ''/tree/''"
    then have ?thesis using assms(1) by (simp add: tree_match_def) }
  moreover
  { fix b assume r: "rest = ''/tree/'' @ b" and b: "CHR ''/'' \<notin> set b"
    have h: "takeWhile (\<lambda>c. c \<noteq> CHR ''/'') b = b"
      using b by (auto simp add: takeWhile_eq_all_conv)
    have ?thesis using assms(1) r
      by (simp add: tree_match_def startswith_def Let_def h) }
  moreover
  { fix b assume r: "rest = ''/tree/'' @ b @ ''/''" and b: "CHR ''/'' \<notin> set b"
    have "takeWhile (\<lambda>c. c \<noteq> CHR ''/'') (b @ ''/'') = b"
      using b by (intro takeWhile_run) auto
    then have ?thesis using assms(1) r
      by (simp add: tree_match_def startswith_def Let_def) }
  ultimately show ?thesis using assms(2) by blast
qed

text \<open>
  C5 (as amended). For a URL \<^verbatim>\<open>github.com/<owner>/<repo>/tree/<branch>/<path>\<close> the second
  pattern recognises the branch and the path, and \<open>parse_github_url\<close> returns the owner,
  the repository and the path: the branch is no part of the result. Owner and repository
  are the first two path segments, whatever follows them, and the path is that of the
  second pattern when it matches and empty otherwise: for the bare repository, for
  anything that follows it and does not start with \<^verbatim>\<open>/tree/\<close> (a trailing slash, a
  \<^verbatim>\<open>blob\<close> URL), and for \<^verbatim>\<open>tree/<branch>\<close> with no path after it. The run that follows
  lists \<^verbatim>\<open>/repos/<owner>/<repo>/contents/<path>\<close> with no reference to a branch, so the
  hosting API serves its default branch.
\<close>

theorem parse_github_url_tree:
  assumes "pre \<in> set url_prefixes"
    and "owner \<noteq> []" and "CHR ''/'' \<notin> set owner"
    and "repo \<noteq> []" and "CHR ''/'' \<notin> set repo"
    and "branch \<noteq> []" and "CHR ''/'' \<notin> set branch"
    and "path \<noteq> []" and "CHR 0x0A \<notin> set path"
    and "rest = [] \<or> hd rest = CHR ''/''"
  shows "tree_match (pre @ ''github.com/'' @ owner @ ''/'' @ repo @ ''/tree/'' @ branch @ ''/'' @ path)
           = Some (branch, path)
       \<and> parse_github_url
           (pre @ ''github.com/'' @ owner @ ''/'' @ repo @ ''/tree/'' @ branch @ ''/'' @ path)
           = Inr (owner, repo, path)
       \<and> parse_github_url (pre @ ''github.com/'' @ owner @ ''/'' @ repo) = Inr (owner, repo, [])
       \<and> parse_github_url (pre @ ''github.com/'' @ owner @ ''/'' @ repo @ rest)
           = Inr (owner, repo,
                  case tree_match (pre @ ''github.com/'' @ owner @ ''/'' @ repo @ rest) of
                    None \<Rightarrow> []
                  | Some (b, p) \<Rightarrow> p)
       \<and> (\<not> startswith rest ''/tree/''
            \<longrightarrow> parse_github_url (pre @ ''github.com/'' @ owner @ ''/'' @ repo @ rest)
                  = Inr (owner, repo, []))
       \<and> parse_github_url (pre @ ''github.com/'' @ owner @ ''/'' @ repo @ ''/tree/'' @ branch)
           = Inr (owner, repo, [])
       \<and> parse_github_url
           (pre @ ''github.com/'' @ owner @ ''/'' @ repo @ ''/tree/'' @ branch @ ''/'')
           = Inr (owner, repo, [])
       \<and> crawler_main fuel e
           (pre @ ''github.com/'' @ owner @ ''/'' @ repo @ ''/tree/'' @ branch @ ''/'' @ path)
           output recursive file_type st
           = (case makedirs (pure_path output) st of
                Inl x \<Rightarrow> Some (Inl x, st)
              | Inr st' \<Rightarrow>
                  process_directory fuel e owner repo path (pure_path output) recursive
                    file_type st')
       \<and> requests (snd (get_repo_contents e owner repo path st))
           = requests st @ [''https://api.github.com/repos/'' @ owner @ ''/'' @ repo
                             @ ''/contents/'' @ path]"
proof -
  let ?u = "pre @ ''github.com/'' @ owner @ ''/'' @ repo @ ''/tree/'' @ branch @ ''/'' @ path"
  let ?r = "pre @ ''github.com/'' @ owner @ ''/'' @ repo"
  have t: "tree_match ?u = Some (branch, path)"
    using assms(1-9) by (rule tree_match_url)
  have m: "match_owner_repo (pre @ ''github.com/'' @ owner @ ''/'' @ repo @ (''/tree/'' @ branch @ ''/'' @ path))
             = Some (owner, repo, ''/tree/'' @ branch @ ''/'' @ path)"
    using assms(1-5) by (intro match_owner_repo_url) auto
  have s: "hd (split_on (CHR ''/'') repo) = repo"
    using assms(5) by (simp add: split_on_no_sep)
  have p1: "parse_github_url ?u = Inr (owner, repo, path)"
    using t m s by (simp add: parse_github_url_def)
  have m0: "match_owner_repo (pre @ ''github.com/'' @ owner @ ''/'' @ repo @ [])
             = Some (owner, repo, [])"
    using assms(1-5) by (intro match_owner_repo_url) auto
  have t0: "tree_match (pre @ ''github.com/'' @ owner @ ''/'' @ repo) = None"
    using m0 by (simp add: tree_match_def startswith_def)
  have p0: "parse_github_url (pre @ ''github.com/'' @ owner @ ''/'' @ repo) = Inr (owner, repo, [])"
    using m0 t0 by (simp add: parse_github_url_def)
  have mr: "match_owner_repo (pre @ ''github.com/'' @ owner @ ''/'' @ repo @ rest)
             = Some (owner, repo, rest)"
    using assms(1-5,10) by (intro match_owner_repo_url) auto
  have pr: "parse_github_url (pre @ ''github.com/'' @ owner @ ''/'' @ repo @ rest)
           = Inr (owner, repo,
                  case tree_match (pre @ ''github.com/'' @ owner @ ''/'' @ repo @ rest) of
                    None \<Rightarrow> []
                  | Some (b, p) \<Rightarrow> p)"
    using mr s by (auto simp add: parse_github_url_def split: option.splits)
  have nt: "\<not> startswith rest ''/tree/''
            \<longrightarrow> parse_github_url (pre @ ''github.com/'' @ owner @ ''/'' @ repo @ rest)
                  = Inr (owner, repo, [])"
  proof
    assume n: "\<not> startswith rest ''/tree/''"
    have "tree_match (pre @ ''github.com/'' @ owner @ ''/'' @ repo @ rest) = None"
      using mr n by (intro tree_match_none) auto
    then show "parse_github_url (pre @ ''github.com/'' @ owner @ ''/'' @ repo @ rest)
                  = Inr (owner, repo, [])"
      using mr by (simp add: parse_github_url_def)
  qed
  have mb: "match_owner_repo (pre @ ''github.com/'' @ owner @ ''/'' @ repo @ (''/tree/'' @ branch))
             = Some (owner, repo, ''/tree/'' @ branch)"
    using assms(1-5) by (intro match_owner_repo_url) auto
  have tb: "tree_match (pre @ ''github.com/'' @ owner @ ''/'' @ repo @ (''/tree/'' @ branch)) = None"
    using mb assms(7) by (intro tree_match_none) auto
  have pb: "parse_github_url (pre @ ''github.com/'' @ owner @ ''/'' @ repo @ ''/tree/'' @ branch)
           = Inr (owner, repo, [])"
    using mb tb by (simp add: parse_github_url_def)
  have ms: "match_owner_repo (pre @ ''github.com/'' @ owner @ ''/'' @ repo @ (''/tree/'' @ branch @ ''/''))
             = Some (owner, repo, ''/tree/'' @ branch @ ''/'')"
    using assms(1-5) by (intro match_owner_repo_url) auto
  have ts: "tree_match (pre @ ''github.com/'' @ owner @ ''/'' @ repo @ (''/tree/'' @ branch @ ''/'')) = None"
    using ms assms(7) by (intro tree_match_none) auto
  have ps: "parse_github_url (pre @ ''github.com/'' @ owner @ ''/'' @ repo @ ''/tree/'' @ branch @ ''/'')
           = Inr (owner, repo, [])"
    using ms ts by (simp add: parse_github_url_def)
  have cm: "crawler_main fuel e ?u output recursive file_type st
           = (case makedirs (pure_path output) st of
                Inl x \<Rightarrow> Some (Inl x, st)
              | Inr st' \<Rightarrow>
                  process_directory fuel e owner repo path (pure_path output) recursive
                    file_type st')"
    using p1 by (simp add: crawler_main_def Let_def)
  have rq: "requests (snd (get_repo_contents e owner repo path st))
           = requests st @ [''https://api.github.com/repos/'' @ owner @ ''/'' @ repo
                             @ ''/contents/'' @ path]"
    using assms(8)
    by (simp add: get_repo_contents_def contents_url_def GITHUB_API_URL_def Let_def
        split: sum.splits prod.splits option.splits)
  from t p1 p0 pr nt pb ps cm rq show ?thesis by blast
qed

theorem parse_github_url_tree_witness:
  "tree_match ''https://github.com/Comfy-Org/workflow_templates/tree/main/templates''
     = Some (''main'', ''templates'')
   \<and> parse_github_url ''https://github.com/Comfy-Org/workflow_templates/tree/main/templates''
     = Inr (''Comfy-Org'', ''workflow_templates'', ''templates'')
   \<and> parse_github_url ''https://github.com/Comfy-Org/workflow_templates''
     = Inr (''Comfy-Org'', ''workflow_templates'', [])
   \<and> parse_github_url ''https://github.com/Comfy-Org/workflow_templates/blob/main/x.json''
     = Inr (''Comfy-Org'', ''workflow_templates'', [])
   \<and> parse_github_url ''https://github.com/Comfy-Org/workflow_templates/tree/main''
     = Inr (''Comfy-Org'', ''workflow_templates'', [])
   \<and> parse_github_url ''https://github.com/Comfy-Org/workflow_templates/tree/main/''
     = Inr (''Comfy-Org'', ''workflow_templates'', [])"
proof -
  have a: "''https://'' \<in> set url_prefixes" by (simp add: url_prefixes_def)
  have b: "''Comfy-Org'' \<noteq> []" "CHR ''/'' \<notin> set ''Comfy-Org''"
    "''workflow_templates'' \<noteq> []" "CHR ''/'' \<notin> set ''workflow_templates''"
    "''main'' \<noteq> []" "CHR ''/'' \<notin> set ''main''"
    "''templates'' \<noteq> []" "CHR 0x0A \<notin> set ''templates''"
    "''/blob/main/x.json'' = [] \<or> hd ''/blob/main/x.json'' = CHR ''/''" by simp_all
  have c: "\<not> startswith ''/blob/main/x.json'' ''/tree/''" by (simp add: startswith_def)
  show ?thesis
    using parse_github_url_tree [OF a b, of 0 quiet_env "''out''" True "''json''" empty_state] c
    by auto
qed

text \<open>
  C5 as stated fails: the URLs of the branches \<^verbatim>\<open>dev\<close> and \<^verbatim>\<open>main\<close> of one repository
  parse to the same result, and the listing request names no branch.
\<close>

theorem branch_dropped_counterexample:
  "tree_match ''https://github.com/o/r/tree/dev/templates'' = Some (''dev'', ''templates'')
   \<and> parse_github_url ''https://github.com/o/r/tree/dev/templates''
       = Inr (''o'', ''r'', ''templates'')
   \<and> parse_github_url ''https://github.com/o/r/tree/main/templates''
       = Inr (''o'', ''r'', ''templates'')
   \<and> requests (snd (get_repo_contents quiet_env ''o'' ''r'' ''templates'' empty_state))
       = [''https://api.github.com/repos/o/r/contents/templates'']"
  by (simp add: parse_github_url_def tree_match_def match_owner_repo_def skip_www_def
      skip_scheme_def startswith_def get_repo_contents_def contents_url_def GITHUB_API_URL_def
      quiet_env_def empty_state_def Let_def)






lemma fallback_name_has_extension:
  assumes "CHR ''/'' \<notin> set timestamp"
  shows "splitext (''civitai_model_'' @ timestamp @ ''.safetensors'')
           = (''civitai_model_'' @ timestamp, ''.safetensors'')"
proof -
  have "splitext ((''civitai_model_'' @ timestamp) @ ''.'' @ ''safetensors'')
          = (''civitai_model_'' @ timestamp, ''.'' @ ''safetensors'')"
    using assms by (intro splitext_file) auto
  then show ?thesis by simp
qed

lemma model_filename_none:
  assumes "CHR ''/'' \<notin> set timestamp"
  shows "model_filename e timestamp url None =
           (let b = basename (urlparse_path e url)
            in if length b < 5 then ''civitai_model_'' @ timestamp @ ''.safetensors''
               else if snd (splitext b) = [] then b @ ''.safetensors''
               else b)"
  using fallback_name_has_extension [OF assms]
  by (auto simp add: model_filename_def url_filename_def Let_def)

text \<open>
  C9. A download with no file name given (\<^verbatim>\<open>None\<close>, or the empty text), whose request
  answers without an error status and whose directory can be created: the directory, in
  its normal form, exists afterwards with its ancestors, whatever existed before; the
  file is named after the last component of the path of the URL; if that component has
  fewer than five characters (the empty one included) the name is
  \<^verbatim>\<open>civitai_model_<timestamp>.safetensors\<close>, and nothing more is appended to it; a name
  of five characters or more gets \<^verbatim>\<open>.safetensors\<close> appended exactly when it has no
  extension. The file is written in the directory under that name, with the body of the
  answer, and its path is returned.
\<close>

theorem download_model_file_names:
  assumes "get_content e url = Inr (status_code, body)"
    and "status_code < 400 \<or> 600 \<le> status_code"
    and "pure_path output_dir \<notin> dom (files st)"
    and "\<forall>a \<in> set (ancestors (pure_path output_dir)). a \<notin> dom (files st)"
    and "CHR ''/'' \<notin> set timestamp"
    and "filename = None \<or> filename = Some []"
    and "b = basename (urlparse_path e url)"
    and "file_name = (if length b < 5 then ''civitai_model_'' @ timestamp @ ''.safetensors''
                      else if snd (splitext b) = [] then b @ ''.safetensors''
                      else b)"
  shows "fst (download_model_file e timestamp url output_dir filename st)
           = Inr (Some (os_path_join output_dir file_name))
       \<and> files (snd (download_model_file e timestamp url output_dir filename st))
           = (files st)(os_path_join output_dir file_name \<mapsto> Bytes body)
       \<and> dirs (snd (download_model_file e timestamp url output_dir filename st))
           = dirs st \<union> set (ancestors (pure_path output_dir)) \<union> {pure_path output_dir}
       \<and> pure_path output_dir \<in> dirs (snd (download_model_file e timestamp url output_dir filename st))"
proof -
  have p: "pure_path output_dir \<noteq> []"
    by (simp add: pure_path_def Let_def)
  have m: "makedirs (pure_path output_dir) st
             = Inr (st\<lparr>dirs := dirs st \<union> set (ancestors (pure_path output_dir))
                                 \<union> {pure_path output_dir}\<rparr>)"
    using p assms(3,4) by (rule makedirs_ok)
  have r: "raise_for_status status_code = None"
    using assms(2) by (auto simp add: raise_for_status_def)
  have n: "model_filename e timestamp url filename = file_name"
  proof -
    have "model_filename e timestamp url filename = model_filename e timestamp url None"
      using assms(6) by (auto simp add: model_filename_def)
    then show ?thesis
      using model_filename_none [OF assms(5), of e url] assms(7,8) by (simp add: Let_def)
  qed
  show ?thesis
    by (simp add: download_model_file_def assms(1) r m n write_file_def Let_def)
qed

theorem download_model_file_names_witness:
  "fst (download_model_file model_env call_time ''https://civitai.example/files/model.ckpt''
          ''models/checkpoints'' None empty_state)
     = Inr (Some ''models/checkpoints/model.ckpt'')
   \<and> files (snd (download_model_file model_env call_time
          ''https://civitai.example/files/model.ckpt'' ''models/checkpoints'' None empty_state))
     = [''models/checkpoints/model.ckpt'' \<mapsto> Bytes ''ckpt-bytes'']
   \<and> dirs (snd (download_model_file model_env call_time
          ''https://civitai.example/files/model.ckpt'' ''models/checkpoints'' None empty_state))
     = {''models'', ''models/checkpoints''}
   \<and> fst (download_model_file model_env call_time
            ''https://civitai.example/api/download/models/12345'' ''models/loras'' (Some [])
            empty_state)
     = Inr (Some ''models/loras/12345.safetensors'')
   \<and> fst (download_model_file model_env call_time ''https://civitai.example/d/42''
            ''models'' None empty_state)
     = Inr (Some ''models/civitai_model_20240131_235959.safetensors'')
   \<and> download_model_file model_env call_time ''https://civitai.example/gone'' ''models'' None
       empty_state
     = (Inr None, empty_state)"
proof -
  let ?e = model_env
  have g: "get_content ?e ''https://civitai.example/files/model.ckpt'' = Inr (200, ''ckpt-bytes'')"
    by (simp add: model_env_def quiet_env_def)
  have s: "(200::nat) < 400 \<or> (600::nat) \<le> 200" by simp
  have pp: "pure_path ''models/checkpoints'' = ''models/checkpoints''"
    by (simp add: pure_path_def path_root_def startswith_def Let_def)
  have an: "ancestors ''models/checkpoints'' = [''models'']"
    by (simp add: ancestors_def upt_rec)
  have f: "pure_path ''models/checkpoints'' \<notin> dom (files empty_state)"
    by (simp add: empty_state_def)
  have a: "\<forall>a \<in> set (ancestors (pure_path ''models/checkpoints'')). a \<notin> dom (files empty_state)"
    by (simp add: empty_state_def)
  have t: "CHR ''/'' \<notin> set call_time" by (simp add: call_time_def)
  have bn: "basename (urlparse_path ?e ''https://civitai.example/files/model.ckpt'') = ''model.ckpt''"
    by (simp add: model_env_def quiet_env_def basename_def after_last_def)
  have sx: "snd (splitext ''model.ckpt'') = ''.ckpt''"
    by (simp add: splitext_def basename_def after_last_def last_dot_split_def Let_def)
  have one: "fst (download_model_file model_env call_time
                 ''https://civitai.example/files/model.ckpt'' ''models/checkpoints'' None
                 empty_state)
               = Inr (Some ''models/checkpoints/model.ckpt'')
           \<and> files (snd (download_model_file model_env call_time
                 ''https://civitai.example/files/model.ckpt'' ''models/checkpoints'' None
                 empty_state))
               = [''models/checkpoints/model.ckpt'' \<mapsto> Bytes ''ckpt-bytes'']
           \<and> dirs (snd (download_model_file model_env call_time
                 ''https://civitai.example/files/model.ckpt'' ''models/checkpoints'' None
                 empty_state))
               = {''models'', ''models/checkpoints''}"
    using download_model_file_names [OF g s f a t, of None "''model.ckpt''" "''model.ckpt''"]
    by (simp add: bn sx pp an os_path_join_def startswith_def endswith_def empty_state_def
        insert_commute)
  have two: "fst (download_model_file model_env call_time
            ''https://civitai.example/api/download/models/12345'' ''models/loras'' (Some [])
            empty_state)
     = Inr (Some ''models/loras/12345.safetensors'')"
    by (simp add: download_model_file_def raise_for_status_def makedirs_def
        model_filename_def url_filename_def os_path_join_def startswith_def endswith_def
        write_file_def empty_state_def model_env_def quiet_env_def basename_def after_last_def
        splitext_def last_dot_split_def pure_path_def path_root_def ancestors_def upt_rec
        Let_def)
  have three: "fst (download_model_file model_env call_time ''https://civitai.example/d/42''
            ''models'' None empty_state)
     = Inr (Some ''models/civitai_model_20240131_235959.safetensors'')"
    by (simp add: download_model_file_def raise_for_status_def makedirs_def
        model_filename_def url_filename_def os_path_join_def startswith_def endswith_def
        write_file_def empty_state_def model_env_def quiet_env_def basename_def after_last_def
        splitext_def last_dot_split_def pure_path_def path_root_def ancestors_def upt_rec
        call_time_def Let_def)
  have four: "download_model_file model_env call_time ''https://civitai.example/gone'' ''models'' None
       empty_state
     = (Inr None, empty_state)"
    by (simp add: download_model_file_def raise_for_status_def model_env_def quiet_env_def)
  show ?thesis using one two three four by simp
qed

lemma auth_headers_cases:
  "auth_headers api_key =
     (if api_key = None \<or> api_key = Some [] then []
      else [(''Authorization'', ''Bearer '' @ the api_key)])"
  by (cases api_key) (simp_all add: auth_headers_def)

text \<open>
  C4 (as amended). The key is required: when the environment holds no
  \<^verbatim>\<open>CIVITAI_API_KEY\<close>, or an empty one, \<^verbatim>\<open>get_api_key\<close> leaves the program with exit status
  1, and \<^verbatim>\<open>main\<close>, which reads the key first, ends so before any request; with a key,
  the first request of \<^verbatim>\<open>main\<close> carries \<^verbatim>\<open>Authorization: Bearer <key>\<close> and no other
  header. The request functions themselves attach the header exactly when they are given
  a key that is not empty, and send no header otherwise; \<^verbatim>\<open>search_models\<close> without a key
  returns the answer of a request without headers.
\<close>

theorem token_required_and_bearer_header:
  "get_api_key environ =
     (if environ ''CIVITAI_API_KEY'' = None \<or> environ ''CIVITAI_API_KEY'' = Some []
      then Inl (SystemExit 1)
      else Inr (the (environ ''CIVITAI_API_KEY'')))
   \<and> (if environ ''CIVITAI_API_KEY'' = None \<or> environ ''CIVITAI_API_KEY'' = Some []
      then main_request environ a = Inl (SystemExit 1)
      else (\<exists>r. main_request environ a = Inr r
                \<and> req_headers r = [(''Authorization'',
                                     ''Bearer '' @ the (environ ''CIVITAI_API_KEY''))]))
   \<and> req_headers (search_request query limit page_arg nsfw sort_arg period types baseModels tags
                    username api_key)
       = (if api_key = None \<or> api_key = Some [] then []
          else [(''Authorization'', ''Bearer '' @ the api_key)])
   \<and> req_headers (model_request model_id api_key)
       = (if api_key = None \<or> api_key = Some [] then []
          else [(''Authorization'', ''Bearer '' @ the api_key)])
   \<and> search_models get query limit page_arg nsfw sort_arg period types baseModels tags username
       None
       = (case get (search_request query limit page_arg nsfw sort_arg period types baseModels
                      tags username None) of
            Inl x \<Rightarrow> if is_request_exception x then Inl (SystemExit 1) else Inl x
          | Inr (status_code, body) \<Rightarrow>
              if 400 \<le> status_code \<and> status_code < 600 then Inl (SystemExit 1) else Inr body)"
proof -
  have k: "get_api_key environ =
     (if environ ''CIVITAI_API_KEY'' = None \<or> environ ''CIVITAI_API_KEY'' = Some []
      then Inl (SystemExit 1)
      else Inr (the (environ ''CIVITAI_API_KEY'')))"
    by (cases "environ ''CIVITAI_API_KEY''") (simp_all add: get_api_key_def)
  have s: "\<And>api_key. req_headers (search_request query limit page_arg nsfw sort_arg period types
                    baseModels tags username api_key) = auth_headers api_key"
    by (simp add: search_request_def Let_def)
  have m: "\<And>i api_key. req_headers (model_request i api_key) = auth_headers api_key"
    by (simp add: model_request_def)
  have s': "\<And>q l p n so pe ty bm ta us api_key.
              req_headers (search_request q l p n so pe ty bm ta us api_key) = auth_headers api_key"
    by (simp add: search_request_def Let_def)
  have r: "if environ ''CIVITAI_API_KEY'' = None \<or> environ ''CIVITAI_API_KEY'' = Some []
      then main_request environ a = Inl (SystemExit 1)
      else (\<exists>r. main_request environ a = Inr r
                \<and> req_headers r = [(''Authorization'',
                                     ''Bearer '' @ the (environ ''CIVITAI_API_KEY''))])"
    by (cases "environ ''CIVITAI_API_KEY''")
       (auto simp add: main_request_def k m s' auth_headers_def)
  have g: "search_models get query limit page_arg nsfw sort_arg period types baseModels tags
             username None
       = (case get (search_request query limit page_arg nsfw sort_arg period types baseModels
                      tags username None) of
            Inl x \<Rightarrow> if is_request_exception x then Inl (SystemExit 1) else Inl x
          | Inr (status_code, body) \<Rightarrow>
              if 400 \<le> status_code \<and> status_code < 600 then Inl (SystemExit 1) else Inr body)"
    by (auto simp add: search_models_def raise_for_status_def split: sum.splits)
  show ?thesis
    using k r g by (simp add: s m auth_headers_cases)
qed

text \<open>
  C4 as stated fails: with no key in the environment, and with an empty one, the program
  ends with exit status 1 and sends no request, although the service would answer a
  request without headers.
\<close>

theorem no_token_exits_counterexample:
  "get_api_key Map.empty = Inl (SystemExit 1)
   \<and> main_request Map.empty query_args = Inl (SystemExit 1)
   \<and> main_request [''CIVITAI_API_KEY'' \<mapsto> ''''] query_args = Inl (SystemExit 1)
   \<and> search_models open_service (Some ''anime'') (Some 10) (Some 1) None None None None None
       None None None
     = Inr (JObj [(''items'', JArr [])])
   \<and> main_request [''CIVITAI_API_KEY'' \<mapsto> ''k1''] query_args
     = Inr \<lparr>req_url = ''https://civitai.com/api/v1/models'',
            req_params = [(''query'', PStr ''anime''), (''limit'', PInt 10), (''page'', PInt 1)],
            req_headers = [(''Authorization'', ''Bearer k1'')]\<rparr>"
  by (simp add: get_api_key_def main_request_def search_models_def search_request_def
      open_service_def raise_for_status_def query_args_def str_param_def int_param_def
      strs_param_def split_arg_def auth_headers_def Let_def)

theorem token_required_and_bearer_header_witness:
  "get_api_key [''CIVITAI_API_KEY'' \<mapsto> ''k1''] = Inr ''k1''
   \<and> (\<exists>r. main_request [''CIVITAI_API_KEY'' \<mapsto> ''k1''] query_args = Inr r
          \<and> req_headers r = [(''Authorization'', ''Bearer k1'')])
   \<and> req_headers (search_request (Some ''anime'') (Some 10) (Some 1) None None None None None
                    None None (Some ''k1'')) = [(''Authorization'', ''Bearer k1'')]
   \<and> req_headers (model_request 7 (Some ''k1'')) = [(''Authorization'', ''Bearer k1'')]
   \<and> search_models open_service (Some ''anime'') (Some 10) (Some 1) None None None None None
       None None None
     = Inr (JObj [(''items'', JArr [])])"
  using token_required_and_bearer_header
          [where environ = "[''CIVITAI_API_KEY'' \<mapsto> ''k1'']" and a = query_args
             and query = "Some ''anime''" and limit = "Some 10" and page_arg = "Some 1"
             and nsfw = None and sort_arg = None and period = None and types = None
             and baseModels = None and tags = None and username = None
             and api_key = "Some ''k1''" and model_id = 7 and get = open_service]
  by (simp add: open_service_def)

lemma is_image_url_get_page [simp]:
  "is_image_url (e\<lparr>get_page := g\<rparr>) = is_image_url e"
  by (rule ext) (simp add: is_image_url_def)




end
